theory Spec2Isabelle
  imports Main "HOL-Library.Char_ord" "HOL-Library.List_Lexorder"
begin

section \<open>Strings\<close>

text \<open>
  A JavaScript string is a sequence of code units. The embedding uses \<^typ>\<open>string\<close>, whose
  characters are the code units below 256 (ASCII and Latin-1); the order of
  \<^theory_text>\<open>HOL-Library.List_Lexorder\<close> over \<^theory_text>\<open>HOL-Library.Char_ord\<close> is the
  code-unit order that \<^verbatim>\<open>Array.prototype.sort\<close> uses when it is called without a
  comparison function.
\<close>

definition toLowerCase_char :: "char \<Rightarrow> char" where
  "toLowerCase_char c =
     (let n = (of_char c :: nat)
      in if (65 \<le> n \<and> n \<le> 90) \<or> (192 \<le> n \<and> n \<le> 222 \<and> n \<noteq> 215)
         then char_of (n + 32) else c)"

definition toLowerCase :: "string \<Rightarrow> string" where
  "toLowerCase s = map toLowerCase_char s"

text \<open>A string is truthy when it is not empty.\<close>

definition truthy_str :: "string \<Rightarrow> bool" where
  "truthy_str s = (s \<noteq> [])"

section \<open>Summary file names: \<^verbatim>\<open>sanitizeFileName\<close>\<close>

text \<open>The character class \<^verbatim>\<open>[a-z0-9_\-]\<close> of the first replacement.\<close>

definition lower_alnum :: "char \<Rightarrow> bool" where
  "lower_alnum c =
     ((CHR ''a'' \<le> c \<and> c \<le> CHR ''z'') \<or> (CHR ''0'' \<le> c \<and> c \<le> CHR ''9''))"

definition name_char :: "char \<Rightarrow> bool" where
  "name_char c = (lower_alnum c \<or> c = CHR ''_'' \<or> c = CHR ''-'')"

text \<open>\<^verbatim>\<open>.replace(/[^a-z0-9_\-]/g, "_")\<close>\<close>

definition replace_invalid :: "string \<Rightarrow> string" where
  "replace_invalid s = map (\<lambda>c. if name_char c then c else CHR ''_'') s"

text \<open>\<^verbatim>\<open>.replace(/_+/g, "_")\<close>: every maximal run of underscores becomes one underscore.\<close>

fun squeeze_underscores :: "string \<Rightarrow> string" where
  "squeeze_underscores (a # b # cs) =
     (if a = CHR ''_'' \<and> b = CHR ''_'' then squeeze_underscores (b # cs)
      else a # squeeze_underscores (b # cs))"
| "squeeze_underscores cs = cs"

text \<open>
  \<^verbatim>\<open>.replace(/^_|_$/g, "")\<close>: an underscore at the very start is removed, and an
  underscore at the very end of what follows is removed.
\<close>

definition strip_leading :: "string \<Rightarrow> string" where
  "strip_leading s = (case s of [] \<Rightarrow> [] | c # cs \<Rightarrow> if c = CHR ''_'' then cs else s)"

definition strip_trailing :: "string \<Rightarrow> string" where
  "strip_trailing s = (if s \<noteq> [] \<and> last s = CHR ''_'' then butlast s else s)"

definition strip_ends :: "string \<Rightarrow> string" where
  "strip_ends s = strip_trailing (strip_leading s)"

definition sanitizeFileName :: "string \<Rightarrow> string" where
  "sanitizeFileName name =
     strip_ends (squeeze_underscores (replace_invalid (toLowerCase
       (if truthy_str name then name else ''unknown''))))"

subsection \<open>The naming rule in the words of the specification\<close>




subsection \<open>The naming rule with the hyphen kept\<close>




section \<open>Payload records\<close>

text \<open>
  The payload of a receipt is what \<^verbatim>\<open>JSON.parse\<close> returns. A number is carried by its
  decimal text, the result of the conversion to string, which is all the program does with a
  number besides testing its truthiness (only zero, printed \<^verbatim>\<open>0\<close>, is falsy). An
  object is the list of its own properties in enumeration order; its keys are distinct
  (\<open>wf_object\<close> below).
\<close>

datatype json = JNull | JBool bool | JNum string | JStr string
  | JArr "json list" | JObj "(string \<times> json) list"

datatype js_error = TypeError

definition truthy :: "json \<Rightarrow> bool" where
  "truthy v = (case v of JNull \<Rightarrow> False | JBool b \<Rightarrow> b | JNum n \<Rightarrow> n \<noteq> ''0''
               | JStr s \<Rightarrow> s \<noteq> [] | JArr _ \<Rightarrow> True | JObj _ \<Rightarrow> True)"

text \<open>
  Conversion to string, as \<^verbatim>\<open>Array.prototype.join\<close> and the use of a value as a
  property key perform it. An object whose own property \<^verbatim>\<open>toString\<close> shadows the
  inherited method has no primitive value: the conversion throws.
\<close>

fun js_toString :: "json \<Rightarrow> js_error + string"
and js_join :: "string \<Rightarrow> json list \<Rightarrow> js_error + string"
and js_join_elem :: "json \<Rightarrow> js_error + string"
where
  "js_toString JNull = Inr ''null''"
| "js_toString (JBool b) = Inr (if b then ''true'' else ''false'')"
| "js_toString (JNum n) = Inr n"
| "js_toString (JStr s) = Inr s"
| "js_toString (JArr vs) = js_join '','' vs"
| "js_toString (JObj ps) =
     (if ''toString'' \<in> set (map fst ps) then Inl TypeError else Inr ''[object Object]'')"
| "js_join sep [] = Inr ''''"
| "js_join sep [v] = js_join_elem v"
| "js_join sep (v # w # vs) =
     (case js_join_elem v of Inl e \<Rightarrow> Inl e
      | Inr s \<Rightarrow> (case js_join sep (w # vs) of Inl e \<Rightarrow> Inl e
                  | Inr t \<Rightarrow> Inr (s @ sep @ t)))"
| "js_join_elem v = (if v = JNull then Inr '''' else js_toString v)"

section \<open>Objects and their prototype\<close>

text \<open>
  An object of the program is its own properties, in the order of their creation, and its
  prototype: \<^verbatim>\<open>Object.prototype\<close> for a parsed object and for a fresh \<^verbatim>\<open>{}\<close>,
  nothing after \<^verbatim>\<open>null\<close> was assigned to \<^verbatim>\<open>__proto__\<close>, or the parsed object or
  array that was assigned to it (whose own prototype is the standard one).
\<close>

datatype prototype = Object_prototype | No_prototype | Inherits json

record js_object =
  properties :: "(string \<times> json) list"
  proto :: prototype

definition parsed :: "(string \<times> json) list \<Rightarrow> js_object" where
  "parsed ps = \<lparr>properties = ps, proto = Object_prototype\<rparr>"

text \<open>
  Whether the objects between an object and \<^verbatim>\<open>Object.prototype\<close> hold a data property
  of the given name. It is asked for \<^verbatim>\<open>hasOwnProperty\<close> and \<^verbatim>\<open>__proto__\<close>, which
  are not the names of array elements.
\<close>

definition data_in_chain :: "prototype \<Rightarrow> string \<Rightarrow> bool" where
  "data_in_chain p k = (case p of Inherits (JObj ps) \<Rightarrow> k \<in> set (map fst ps) | _ \<Rightarrow> False)"

text \<open>
  \<^verbatim>\<open>result[key] = value\<close>: an existing own property keeps its place, a new one is added
  last. The name \<^verbatim>\<open>__proto__\<close> reaches the accessor inherited from
  \<^verbatim>\<open>Object.prototype\<close>, unless a data property of that name is found first: the
  accessor creates no own property, it replaces the prototype when the value is an object,
  an array or \<^verbatim>\<open>null\<close>, and ignores every other value.
\<close>

fun set_own :: "string \<Rightarrow> json \<Rightarrow> (string \<times> json) list \<Rightarrow> (string \<times> json) list" where
  "set_own k v [] = [(k, v)]"
| "set_own k v (p # ps) = (if fst p = k then (k, v) # ps else p # set_own k v ps)"

definition assign :: "js_object \<Rightarrow> string \<Rightarrow> json \<Rightarrow> js_object" where
  "assign result k v =
     (if k = ''__proto__'' \<and> k \<notin> set (map fst (properties result))
         \<and> proto result \<noteq> No_prototype \<and> \<not> data_in_chain (proto result) k
      then (case v of
              JNull \<Rightarrow> result\<lparr>proto := No_prototype\<rparr>
            | JObj ps \<Rightarrow> result\<lparr>proto := Inherits v\<rparr>
            | JArr vs \<Rightarrow> result\<lparr>proto := Inherits v\<rparr>
            | _ \<Rightarrow> result)
      else result\<lparr>properties := set_own k v (properties result)\<rparr>)"

text \<open>
  \<^verbatim>\<open>obj.hasOwnProperty(key)\<close>: the method is looked up on \<open>obj\<close> first and then along
  its prototypes. A data property of that name, which is parsed data and not a function,
  makes the call throw, and so does the lack of any prototype.
\<close>

definition hasOwnProperty :: "js_object \<Rightarrow> string \<Rightarrow> js_error + bool" where
  "hasOwnProperty obj key =
     (if ''hasOwnProperty'' \<in> set (map fst (properties obj)) \<or> proto obj = No_prototype
         \<or> data_in_chain (proto obj) ''hasOwnProperty''
      then Inl TypeError
      else Inr (key \<in> set (map fst (properties obj))))"

text \<open>\<^verbatim>\<open>obj[key]\<close> for an own property; the loops read under the guard above.\<close>

definition own_value :: "js_object \<Rightarrow> string \<Rightarrow> json" where
  "own_value obj key = (case map_of (properties obj) key of Some v \<Rightarrow> v | None \<Rightarrow> JNull)"

text \<open>
  The order in which the own properties of an object are enumerated: keys that are array
  indices first, by value, then the other keys in the order of their creation.
\<close>

definition digit_value :: "char \<Rightarrow> nat" where
  "digit_value c = of_char c - 48"

definition decimal_value :: "string \<Rightarrow> nat" where
  "decimal_value s = foldl (\<lambda>n c. 10 * n + digit_value c) 0 s"

definition is_array_index :: "string \<Rightarrow> bool" where
  "is_array_index s =
     (s \<noteq> [] \<and> list_all (\<lambda>c. CHR ''0'' \<le> c \<and> c \<le> CHR ''9'') s
      \<and> (s = ''0'' \<or> hd s \<noteq> CHR ''0'') \<and> decimal_value s < 4294967295)"

definition enumeration_order :: "(string \<times> 'a) list \<Rightarrow> (string \<times> 'a) list" where
  "enumeration_order ps =
     sort_key (\<lambda>(k, v). decimal_value k) (filter (\<lambda>(k, v). is_array_index k) ps)
     @ filter (\<lambda>(k, v). \<not> is_array_index k) ps"

text \<open>The decimal text of an array index.\<close>

fun decimal :: "nat \<Rightarrow> string" where
  "decimal n =
     (if n < 10 then [char_of (48 + n)] else decimal (n div 10) @ [char_of (48 + n mod 10)])"

text \<open>
  \<^verbatim>\<open>for (var key in obj)\<close> on an object built by the program: its own keys in
  enumeration order, then the keys it inherits from the object or array that became its
  prototype and that its own keys do not hide. \<^verbatim>\<open>Object.prototype\<close> and
  \<^verbatim>\<open>Array.prototype\<close> have no enumerable property.
\<close>

definition inherited_keys :: "js_object \<Rightarrow> string list" where
  "inherited_keys obj =
     filter (\<lambda>k. k \<notin> set (map fst (properties obj)))
       (case proto obj of
          Inherits (JObj ps) \<Rightarrow> map fst ps
        | Inherits (JArr vs) \<Rightarrow> map decimal [0..<length vs]
        | _ \<Rightarrow> [])"

definition for_in :: "js_object \<Rightarrow> string list" where
  "for_in obj = map fst (enumeration_order (properties obj)) @ inherited_keys obj"

section \<open>Flattening: \<^verbatim>\<open>flattenObject\<close>\<close>

text \<open>
  The inner loop over the \<^verbatim>\<open>fields\<close> object, which promotes its keys. The object is
  parsed data: the loop runs over its own properties.
\<close>

fun copy_fields ::
  "(string \<times> json) list \<Rightarrow> (string \<times> json) list \<Rightarrow> js_object \<Rightarrow> js_error + js_object" where
  "copy_fields val [] result = Inr result"
| "copy_fields val ((fieldKey, fieldValue) # rest) result =
     (if fieldKey = ''type-code'' then copy_fields val rest result
      else (case hasOwnProperty (parsed val) fieldKey of
              Inl e \<Rightarrow> Inl e
            | Inr own \<Rightarrow>
                copy_fields val rest
                  (if own then assign result fieldKey fieldValue else result)))"

text \<open>The loop that copies the own properties of a flattened nested object.\<close>

fun copy_flattened :: "js_object \<Rightarrow> string list \<Rightarrow> js_object \<Rightarrow> js_error + js_object" where
  "copy_flattened flattened [] result = Inr result"
| "copy_flattened flattened (subKey # rest) result =
     (case hasOwnProperty flattened subKey of
        Inl e \<Rightarrow> Inl e
      | Inr own \<Rightarrow>
          copy_flattened flattened rest
            (if own then assign result subKey (own_value flattened subKey) else result))"

text \<open>
  \<open>flatten_loop self entries prefix result\<close> is the \<^verbatim>\<open>for (var key in obj)\<close> loop
  over the remaining \<open>entries\<close> of the parsed object \<open>self\<close>.
\<close>

fun flattenObject :: "(string \<times> json) list \<Rightarrow> string \<Rightarrow> js_error + js_object"
and flatten_loop ::
  "(string \<times> json) list \<Rightarrow> (string \<times> json) list \<Rightarrow> string \<Rightarrow> js_object
     \<Rightarrow> js_error + js_object"
where
  "flattenObject obj prefix = flatten_loop obj obj prefix (parsed [])"
| "flatten_loop self [] prefix result = Inr result"
| "flatten_loop self ((key, val) # rest) prefix result =
     (case hasOwnProperty (parsed self) key of
        Inl e \<Rightarrow> Inl e
      | Inr own \<Rightarrow>
          if \<not> own then flatten_loop self rest prefix result
          else
            let newKey = (if truthy_str prefix then prefix @ ''.'' @ key else key) in
            if newKey = ''type-code'' then flatten_loop self rest prefix result
            else (case val of
                JObj sub \<Rightarrow>
                  if key = ''fields'' then
                    (case copy_fields sub sub result of
                       Inl e \<Rightarrow> Inl e
                     | Inr result' \<Rightarrow> flatten_loop self rest prefix result')
                  else
                    (case flattenObject sub newKey of
                       Inl e \<Rightarrow> Inl e
                     | Inr flattened \<Rightarrow>
                         (case copy_flattened flattened (for_in flattened) result of
                            Inl e \<Rightarrow> Inl e
                          | Inr result' \<Rightarrow> flatten_loop self rest prefix result'))
              | JArr vs \<Rightarrow>
                  (case js_join ''; '' vs of
                     Inl e \<Rightarrow> Inl e
                   | Inr joined \<Rightarrow>
                       flatten_loop self rest prefix (assign result newKey (JStr joined)))
              | _ \<Rightarrow> flatten_loop self rest prefix (assign result newKey val)))"

text \<open>A record is flat when no value is a nested object or an array.\<close>

definition is_flat :: "(string \<times> json) list \<Rightarrow> bool" where
  "is_flat obj = list_all (\<lambda>(k, v). case v of JObj _ \<Rightarrow> False | JArr _ \<Rightarrow> False | _ \<Rightarrow> True) obj"

text \<open>The record without its discriminant field.\<close>

definition without_type_code :: "(string \<times> json) list \<Rightarrow> (string \<times> json) list" where
  "without_type_code obj = filter (\<lambda>(k, v). k \<noteq> ''type-code'') obj"

section \<open>The host environment\<close>

text \<open>
  The workflows run inside a host that supplies the file system, process execution, the
  run configuration and the clock. The host is a parameter of the embedding: a record of
  operations over a type \<open>'w\<close> of worlds (the state of the file system and of everything
  else outside the script). Operations that change the world return the new one. A host
  result whose \<^verbatim>\<open>error\<close> field is set (truthy) is \<open>Inl\<close> of the error text, or
  \<open>Some\<close> of it where the operation returns nothing else.
\<close>

type_synonym path = string

record file_info =
  fi_name :: string
  fi_path :: path
  fi_is_dir :: bool

record cmd_options =
  timeout :: nat
  interactive :: bool

record cmd_result =
  stdout :: string
  stderr :: string
  cmd_error :: "string option"

record 'w host =
  getVar :: "string \<Rightarrow> string"
  fs_exists :: "'w \<Rightarrow> path \<Rightarrow> bool"
  fs_isFile :: "'w \<Rightarrow> path \<Rightarrow> bool"
  fs_isDir :: "'w \<Rightarrow> path \<Rightarrow> bool"
  fs_readdir :: "'w \<Rightarrow> path \<Rightarrow> string + file_info list"
  fs_mkdir :: "'w \<Rightarrow> path \<Rightarrow> string option \<times> 'w"
  fs_read :: "'w \<Rightarrow> path \<Rightarrow> string + string"
  fs_write :: "'w \<Rightarrow> path \<Rightarrow> string \<Rightarrow> string option \<times> 'w"
  fs_rm :: "'w \<Rightarrow> path \<Rightarrow> 'w"
  fs_join :: "string list \<Rightarrow> path"
  fs_abs :: "'w \<Rightarrow> path \<Rightarrow> string + path"
  fs_ext :: "path \<Rightarrow> string"
  fs_filename :: "path \<Rightarrow> string"
  fs_basename :: "path \<Rightarrow> string"
  fs_dirname :: "path \<Rightarrow> path"
  fs_find :: "'w \<Rightarrow> path \<Rightarrow> string \<Rightarrow> string + path list"
  fs_cwd :: "'w \<Rightarrow> string + path"
  fs_md5 :: "'w \<Rightarrow> path \<Rightarrow> string + string"
  cliCommand :: "'w \<Rightarrow> string \<Rightarrow> string list \<Rightarrow> cmd_options \<Rightarrow> cmd_result \<times> 'w"
  date_getTime :: "'w \<Rightarrow> string"
  date_toISOString :: "'w \<Rightarrow> string"
  JSON_parse :: "string \<Rightarrow> json option"
  JSON_stringify :: "json \<Rightarrow> string"

text \<open>
  \<open>date_getTime\<close> is the decimal text of \<^verbatim>\<open>new Date().getTime()\<close>;
  \<open>JSON_parse\<close> is \<open>None\<close> where \<^verbatim>\<open>JSON.parse\<close> throws.

  The state of a run: the world, and the lines the script has sent to
  \<^verbatim>\<open>console.error\<close>, oldest first, each line the list of its arguments (the pictograph
  that opens a message is left out). The progress lines of \<^verbatim>\<open>console.log\<close> are
  presentation and are not recorded.
\<close>

record 'w state =
  world :: 'w
  errors :: "string list list"

definition console_error :: "string list \<Rightarrow> 'w state \<Rightarrow> 'w state" where
  "console_error line s = s\<lparr>errors := errors s @ [line]\<rparr>"

definition console_errors :: "string list list \<Rightarrow> 'w state \<Rightarrow> 'w state" where
  "console_errors lines s = s\<lparr>errors := errors s @ lines\<rparr>"

subsection \<open>String helpers of the scripts\<close>

definition js_space :: "char \<Rightarrow> bool" where
  "js_space c = ((of_char c :: nat) \<in> {9, 10, 11, 12, 13, 32, 160})"

definition js_trim :: "string \<Rightarrow> string" where
  "js_trim s = rev (dropWhile js_space (rev (dropWhile js_space s)))"

text \<open>\<^verbatim>\<open>!s || s.trim().length === 0\<close>\<close>

definition is_blank :: "string \<Rightarrow> bool" where
  "is_blank s = (js_trim s = [])"

text \<open>\<^verbatim>\<open>s.split("\n")\<close>\<close>

fun split_lines :: "string \<Rightarrow> string list" where
  "split_lines [] = [[]]"
| "split_lines (c # cs) =
     (if c = CHR 0x0A then [] # split_lines cs
      else (case split_lines cs of l # ls \<Rightarrow> (c # l) # ls | [] \<Rightarrow> [[c]]))"

text \<open>\<^verbatim>\<open>args.join(" ")\<close> on an array of strings.\<close>

fun join_strings :: "string \<Rightarrow> string list \<Rightarrow> string" where
  "join_strings sep [] = []"
| "join_strings sep [x] = x"
| "join_strings sep (x # y # ys) = x @ sep @ join_strings sep (y # ys)"

text \<open>\<^verbatim>\<open>s.indexOf(sub) !== -1\<close>\<close>

definition contains :: "string \<Rightarrow> string \<Rightarrow> bool" where
  "contains s sub = list_ex (\<lambda>i. take (length sub) (drop i s) = sub) [0 ..< Suc (length s)]"

text \<open>
  The excerpt of a tool's output that follows a failure: a heading, then the trimmed
  non-blank lines among the first \<open>n\<close>.
\<close>

definition excerpt :: "string \<Rightarrow> nat \<Rightarrow> string \<Rightarrow> string list list" where
  "excerpt heading n text =
     (if is_blank text then []
      else [heading] # map (\<lambda>l. [''  '' @ js_trim l])
                         (filter (\<lambda>l. \<not> is_blank l) (take n (split_lines text))))"

section \<open>Path Resolver: \<^verbatim>\<open>validateOutputPath\<close>\<close>

datatype validation = Valid path | Invalid string

text \<open>\<^verbatim>\<open>absResult.error ? outputPath : absResult.path\<close>\<close>

definition abs_or_same :: "'w host \<Rightarrow> 'w \<Rightarrow> path \<Rightarrow> path" where
  "abs_or_same h w outputPath =
     (case fs_abs h w outputPath of Inl e \<Rightarrow> outputPath | Inr p \<Rightarrow> p)"

definition quoted :: "string \<Rightarrow> string" where
  "quoted p = [CHR 0x27] @ p @ [CHR 0x27]"

definition validateOutputPath ::
  "'w host \<Rightarrow> 'w state \<Rightarrow> path \<Rightarrow> bool \<Rightarrow> validation \<times> 'w state" where
  "validateOutputPath h s outputPath isBatchProcessing =
     (let w = world s; pathExists = fs_exists h w outputPath in
      if isBatchProcessing then
        (if pathExists then
           (if \<not> fs_isDir h w outputPath then
              (Invalid (''For batch processing, output path must be a directory, but ''
                        @ quoted outputPath @ '' is a file''), s)
            else (Valid (abs_or_same h w outputPath), s))
         else
           (case fs_mkdir h w outputPath of
              (Some e, w') \<Rightarrow>
                (Invalid (''Cannot create output directory '' @ quoted outputPath
                          @ '': '' @ e), s\<lparr>world := w'\<rparr>)
            | (None, w') \<Rightarrow> (Valid (abs_or_same h w' outputPath), s\<lparr>world := w'\<rparr>)))
      else
        (if pathExists then
           (if fs_isDir h w outputPath then (Valid (abs_or_same h w outputPath), s)
            else (Valid (abs_or_same h w outputPath), s))
         else
           (let parentDir = fs_dirname h outputPath in
            if \<not> fs_exists h w parentDir then
              (case fs_mkdir h w parentDir of
                 (Some e, w') \<Rightarrow>
                   (Invalid (''Cannot create parent directory for '' @ quoted outputPath
                             @ '': '' @ e), s\<lparr>world := w'\<rparr>)
               | (None, w') \<Rightarrow> (Valid (abs_or_same h w' outputPath), s\<lparr>world := w'\<rparr>))
            else (Valid (abs_or_same h w outputPath), s))))"

section \<open>Tool availability: \<^verbatim>\<open>checkCliTool\<close>\<close>

text \<open>
  The text and contract workflows print an excerpt of both output streams after a failed
  probe (\<open>withStdout\<close>); the receipt workflow prints the error stream only.
\<close>

definition checkCliTool :: "'w host \<Rightarrow> bool \<Rightarrow> 'w state \<Rightarrow> string \<Rightarrow> bool \<times> 'w state" where
  "checkCliTool h withStdout s toolName =
     (case cliCommand h (world s) toolName [''-h''] \<lparr>timeout = 10, interactive = False\<rparr> of
        (result, w') \<Rightarrow>
          let s' = s\<lparr>world := w'\<rparr>;
              err = (case cmd_error result of None \<Rightarrow> [] | Some e \<Rightarrow> e) in
          if cmd_error result \<noteq> None
             \<and> contains err ''not in the allowed CLI commands list'' then
            (False, console_errors
               [[toolName @ '' command is blocked by security whitelist''], [''Error:'', err]] s')
          else if cmd_error result \<noteq> None
             \<and> (contains err ''command not found'' \<or> contains err ''No such file or directory'') then
            (False, console_errors
               [[toolName @ '' command not found''], [''Error:'', err]] s')
          else
            let output = (if truthy_str (stdout result) then stdout result else stderr result) in
            if length output > 0 \<or> cmd_error result = None then (True, s')
            else
              (False, console_errors
                 ([[toolName @ '' command failed''], [''Error:'', err]]
                  @ excerpt ''Standard Error Output:'' 5 (stderr result)
                  @ (if withStdout then excerpt ''Standard Output:'' 5 (stdout result) else []))
                 s'))"

section \<open>Document Discovery\<close>

text \<open>\<^verbatim>\<open>isDocumentFile\<close> of the text and contract workflows, and \<^verbatim>\<open>isVideoFile\<close>.\<close>

definition isDocumentFile :: "'w host \<Rightarrow> path \<Rightarrow> string list \<Rightarrow> bool" where
  "isDocumentFile h filepath documentExtensions =
     (toLowerCase (fs_ext h filepath) \<in> set documentExtensions)"

text \<open>\<^verbatim>\<open>isDocumentFile\<close> of the receipt workflow.\<close>

definition isDocumentFile_receipt :: "'w host \<Rightarrow> path \<Rightarrow> string list \<Rightarrow> bool" where
  "isDocumentFile_receipt h filepath documentExtensions =
     (let extension = fs_ext h filepath in
      if \<not> truthy_str extension then False
      else
        let lowered = toLowerCase extension;
            dotted = (if hd lowered \<noteq> CHR ''.'' then CHR ''.'' # lowered else lowered)
        in dotted \<in> set documentExtensions)"

text \<open>
  \<^verbatim>\<open>getDocumentFiles\<close>. The three document workflows differ only in their extension
  test, which is the parameter \<open>isDoc\<close>. The receipt workflow also skips a listing entry
  whose name is not a string; an entry of the host's listing always has one, so the test
  never fires and is left out.
\<close>

definition getDocumentFilesWith ::
  "(path \<Rightarrow> string list \<Rightarrow> bool) \<Rightarrow> 'w host \<Rightarrow> 'w state \<Rightarrow> path \<Rightarrow> string list
     \<Rightarrow> path list \<times> 'w state" where
  "getDocumentFilesWith isDoc h s inputPath documentExtensions =
     (let w = world s in
      if \<not> fs_exists h w inputPath then ([], console_error [''Cannot access:'', inputPath] s)
      else if fs_isDir h w inputPath then
        (case fs_readdir h w inputPath of
           Inr files \<Rightarrow>
             (sort (map fi_path
                (filter (\<lambda>fileInfo. \<not> fi_is_dir fileInfo
                                     \<and> isDoc (fi_path fileInfo) documentExtensions) files)), s)
         | Inl e \<Rightarrow> (sort [], console_error [''Failed to list directory:'', e] s))
      else if fs_isFile h w inputPath then
        (sort (if isDoc inputPath documentExtensions then [inputPath] else []), s)
      else (sort [], s))"

definition getDocumentFiles ::
  "'w host \<Rightarrow> 'w state \<Rightarrow> path \<Rightarrow> string list \<Rightarrow> path list \<times> 'w state" where
  "getDocumentFiles h = getDocumentFilesWith (isDocumentFile h) h"

definition getDocumentFiles_receipt ::
  "'w host \<Rightarrow> 'w state \<Rightarrow> path \<Rightarrow> string list \<Rightarrow> path list \<times> 'w state" where
  "getDocumentFiles_receipt h = getDocumentFilesWith (isDocumentFile_receipt h) h"

text \<open>\<^verbatim>\<open>getVideoFiles\<close> of the media workflow, which searches with \<^verbatim>\<open>fs.find\<close>.\<close>

definition getVideoFiles ::
  "'w host \<Rightarrow> 'w state \<Rightarrow> path \<Rightarrow> string list \<Rightarrow> path list \<times> 'w state" where
  "getVideoFiles h s inputPath videoExtensions =
     (let w = world s in
      if \<not> fs_exists h w inputPath then ([], console_error [''Cannot access:'', inputPath] s)
      else if fs_isDir h w inputPath then
        (case fs_find h w inputPath ''*'' of
           Inr files \<Rightarrow>
             (sort (filter (\<lambda>file. fs_isFile h w file
                                     \<and> isDocumentFile h file videoExtensions) files), s)
         | Inl e \<Rightarrow> (sort [], s))
      else if fs_isFile h w inputPath then
        (sort (if isDocumentFile h inputPath videoExtensions then [inputPath] else []), s)
      else (sort [], s))"

text \<open>The allow-lists of the workflows.\<close>

definition documentExtensions_text :: "string list" where
  "documentExtensions_text =
     [''.pdf'', ''.docx'', ''.doc'', ''.txt'', ''.png'', ''.jpg'', ''.jpeg'', ''.gif'',
      ''.bmp'', ''.tiff'']"

definition documentExtensions_receipt :: "string list" where
  "documentExtensions_receipt =
     [''.pdf'', ''.png'', ''.jpg'', ''.jpeg'', ''.gif'', ''.bmp'', ''.tiff'', ''.docx'',
      ''.doc'', ''.txt'']"

definition videoExtensions :: "string list" where
  "videoExtensions =
     [''.mp4'', ''.avi'', ''.mov'', ''.mkv'', ''.wmv'', ''.flv'', ''.webm'', ''.m4v'',
      ''.mpg'', ''.mpeg'', ''.3gp'', ''.asf'', ''.rm'', ''.rmvb'', ''.vob'', ''.ts'', ''.mts'']"

section \<open>Per-file output paths\<close>

text \<open>
  \<^verbatim>\<open>determineTextOutputPath\<close> and \<^verbatim>\<open>determineReceiptOutputPath\<close>: the same rule with
  the file name suffix and the default extension of the workflow.
\<close>

definition determineOutputPathWith ::
  "string \<Rightarrow> string \<Rightarrow> 'w host \<Rightarrow> 'w \<Rightarrow> path \<Rightarrow> string \<Rightarrow> path \<Rightarrow> bool \<Rightarrow> path" where
  "determineOutputPathWith suffix extension h w inputFile baseName outputPath isBatchProcessing =
     (let outputFileName = baseName @ suffix in
      if truthy_str outputPath then
        (if isBatchProcessing \<or> fs_isDir h w outputPath then fs_join h [outputPath, outputFileName]
         else if truthy_str (fs_ext h outputPath) then outputPath
         else outputPath @ extension)
      else fs_join h [fs_dirname h inputFile, outputFileName])"

definition determineTextOutputPath ::
  "'w host \<Rightarrow> 'w \<Rightarrow> path \<Rightarrow> string \<Rightarrow> path \<Rightarrow> bool \<Rightarrow> path" where
  "determineTextOutputPath = determineOutputPathWith ''.txt'' ''.txt''"

definition determineReceiptOutputPath ::
  "'w host \<Rightarrow> 'w \<Rightarrow> path \<Rightarrow> string \<Rightarrow> path \<Rightarrow> bool \<Rightarrow> path" where
  "determineReceiptOutputPath = determineOutputPathWith ''.receipt.json'' ''.json''"

section \<open>Text workflow: \<^verbatim>\<open>extractTextFromDocument\<close>\<close>

text \<open>The last step of the function: the output file is read back and must not be blank.\<close>

definition verify_text_output :: "'w host \<Rightarrow> 'w state \<Rightarrow> path \<Rightarrow> bool \<times> 'w state" where
  "verify_text_output h s textOutputFile =
     (case fs_read h (world s) textOutputFile of
        Inl e \<Rightarrow> (False, console_error [''Failed to verify output file:'', e] s)
      | Inr content \<Rightarrow>
          if is_blank content then (False, console_error [''Extracted text is empty''] s)
          else (True, s))"

text \<open>
  The fallback of the text workflow, entered when the tool returned without error and the
  declared output file does not exist: the first \<^verbatim>\<open>text.txt\<close> found from the current
  working directory is copied to the declared output and then removed.
\<close>

definition relocate_text_output :: "'w host \<Rightarrow> 'w state \<Rightarrow> path \<Rightarrow> bool \<times> 'w state" where
  "relocate_text_output h s textOutputFile =
     (let s1 = console_error
                 [''Text file was not created at expected location:'', textOutputFile] s;
          w = world s in
      case fs_cwd h w of
        Inl e \<Rightarrow> (False, console_error [''Could not determine current working directory''] s1)
      | Inr cwd \<Rightarrow>
          (case fs_find h w cwd ''text.txt'' of
             Inr (sourceFile # others) \<Rightarrow>
               (case fs_read h w sourceFile of
                  Inl e \<Rightarrow> (False, console_error [''Failed to read extracted text:'', e] s1)
                | Inr content \<Rightarrow>
                    (case fs_write h w textOutputFile content of
                       (Some e, w') \<Rightarrow>
                         (False, console_error
                            [''Failed to write text to desired location:'', e]
                            (s1\<lparr>world := w'\<rparr>))
                     | (None, w') \<Rightarrow>
                         verify_text_output h (s1\<lparr>world := fs_rm h w' sourceFile\<rparr>)
                           textOutputFile))
           | _ \<Rightarrow> (False, console_error [''Could not locate extracted text file''] s1)))"

definition text_extract_args ::
  "path \<Rightarrow> path \<Rightarrow> string \<Rightarrow> string \<Rightarrow> string \<Rightarrow> bool \<Rightarrow> string list" where
  "text_extract_args documentFile textOutputFile ocrTool ocrLlmTemplate contentType verbose =
     [documentFile]
     @ (if truthy_str contentType then [''--content-type'', contentType] else [])
     @ (if truthy_str ocrTool \<and> ocrTool \<noteq> ''interactive'' then
          [''--ocr'', ocrTool]
          @ (if ocrTool = ''llm-caller'' \<and> truthy_str ocrLlmTemplate
             then [''--llm_template'', ocrLlmTemplate] else [])
        else [])
     @ (if verbose then [''--verbose''] else [])
     @ [''-o'', textOutputFile]"

definition text_extract_options :: "string \<Rightarrow> cmd_options" where
  "text_extract_options ocrTool =
     (if \<not> truthy_str ocrTool \<or> ocrTool = ''interactive''
      then \<lparr>timeout = 1800, interactive = True\<rparr>
      else \<lparr>timeout = 600, interactive = False\<rparr>)"

definition extractTextFromDocument ::
  "'w host \<Rightarrow> 'w state \<Rightarrow> path \<Rightarrow> path \<Rightarrow> string \<Rightarrow> string \<Rightarrow> string \<Rightarrow> bool
     \<Rightarrow> bool \<times> 'w state" where
  "extractTextFromDocument h s documentFile textOutputFile ocrTool ocrLlmTemplate contentType
       verbose =
     (let extractArgs = text_extract_args documentFile textOutputFile ocrTool ocrLlmTemplate
                          contentType verbose in
      case cliCommand h (world s) ''doc-to-text'' extractArgs (text_extract_options ocrTool) of
        (extractResult, w1) \<Rightarrow>
          let s1 = s\<lparr>world := w1\<rparr> in
          (case cmd_error extractResult of
             Some e \<Rightarrow>
               (False, console_errors
                  ([[''Text extraction failed:''],
                    [''Command: doc-to-text '' @ join_strings '' '' extractArgs],
                    [''Error:'', e]]
                   @ excerpt ''Standard Error Output:'' 10 (stderr extractResult)
                   @ excerpt ''Standard Output:'' 10 (stdout extractResult)) s1)
           | None \<Rightarrow>
               if \<not> fs_exists h w1 textOutputFile then relocate_text_output h s1 textOutputFile
               else verify_text_output h s1 textOutputFile))"

section \<open>Text workflow: \<^verbatim>\<open>main\<close>\<close>

record text_counts =
  tc_success :: nat
  tc_failure :: nat

text \<open>The per-file loop of the text workflow.\<close>

fun text_loop ::
  "'w host \<Rightarrow> path \<Rightarrow> bool \<Rightarrow> bool \<Rightarrow> string \<Rightarrow> string \<Rightarrow> string \<Rightarrow> bool
     \<Rightarrow> path list \<Rightarrow> text_counts \<Rightarrow> 'w state \<Rightarrow> text_counts \<times> 'w state" where
  "text_loop h outputPath isBatchProcessing overwrite ocrTool ocrLlmTemplate contentType verbose
       [] counts s = (counts, s)"
| "text_loop h outputPath isBatchProcessing overwrite ocrTool ocrLlmTemplate contentType verbose
       (documentFile # rest) counts s =
     (let baseName = fs_basename h documentFile;
          textOutputFile = determineTextOutputPath h (world s) documentFile baseName outputPath
                             isBatchProcessing in
      if \<not> overwrite \<and> fs_exists h (world s) textOutputFile then
        text_loop h outputPath isBatchProcessing overwrite ocrTool ocrLlmTemplate contentType
          verbose rest counts s
      else
        (case extractTextFromDocument h s documentFile textOutputFile ocrTool ocrLlmTemplate
                contentType verbose of
           (ok, s') \<Rightarrow>
             text_loop h outputPath isBatchProcessing overwrite ocrTool ocrLlmTemplate
               contentType verbose rest
               (if ok then counts\<lparr>tc_success := tc_success counts + 1\<rparr>
                else counts\<lparr>tc_failure := tc_failure counts + 1\<rparr>) s'))"

text \<open>
  \<^verbatim>\<open>main\<close> of the text workflow, from the validation of the output path on; the result is
  the returned boolean and, when the per-file loop was reached, its tallies.
\<close>

definition main_text_from_output ::
  "'w host \<Rightarrow> 'w state \<Rightarrow> path \<Rightarrow> path \<Rightarrow> bool \<Rightarrow> string \<Rightarrow> string \<Rightarrow> string \<Rightarrow> bool
     \<Rightarrow> (bool \<times> text_counts option) \<times> 'w state" where
  "main_text_from_output h s inputPath outputPath0 overwrite ocrTool ocrLlmTemplate contentType
       verbose =
     (let isBatchProcessing = fs_isDir h (world s) inputPath in
      case (if truthy_str outputPath0
            then (case validateOutputPath h s outputPath0 isBatchProcessing of
                    (Invalid e, s') \<Rightarrow> (None, console_error [''Error:'', e] s')
                  | (Valid p, s') \<Rightarrow> (Some p, s'))
            else (Some outputPath0, s)) of
        (None, s1) \<Rightarrow> ((False, None), s1)
      | (Some outputPath, s1) \<Rightarrow>
          (case checkCliTool h True s1 ''doc-to-text'' of
             (False, s2) \<Rightarrow> ((False, None), s2)
           | (True, s2) \<Rightarrow>
               (case getDocumentFiles h s2 inputPath documentExtensions_text of
                  (documentFiles, s3) \<Rightarrow>
                    if length documentFiles = 0 then
                      ((False, None),
                       console_error [''No supported document files found in:'', inputPath] s3)
                    else
                      (case text_loop h outputPath isBatchProcessing overwrite ocrTool
                              ocrLlmTemplate contentType verbose documentFiles
                              \<lparr>tc_success = 0, tc_failure = 0\<rparr> s3 of
                         (counts, s4) \<Rightarrow> ((True, Some counts), s4)))))"

definition main_text :: "'w host \<Rightarrow> 'w state \<Rightarrow> (bool \<times> text_counts option) \<times> 'w state" where
  "main_text h s =
     (let inputPath = getVar h ''input'';
          outputPath = getVar h ''output'';
          ocrTool = (if truthy_str (getVar h ''ocr'') then getVar h ''ocr'' else ''interactive'');
          ocrLlmTemplate = getVar h ''ocr_llm_template'';
          contentType = getVar h ''content_type'';
          overwrite = (getVar h ''overwrite'' = ''true'');
          verbose = (getVar h ''verbose'' = ''true'') in
      if \<not> truthy_str inputPath then
        ((False, None), console_error [''Error: Input path is required''] s)
      else if ocrTool = ''llm-caller'' \<and> \<not> truthy_str ocrLlmTemplate then
        ((False, None),
         console_error
           [''Error: ocr_llm_template is required when using llm-caller as OCR tool''] s)
      else if \<not> fs_exists h (world s) inputPath then
        ((False, None), console_error [''Error: Input path does not exist:'', inputPath] s)
      else main_text_from_output h s inputPath outputPath overwrite ocrTool ocrLlmTemplate
             contentType verbose)"

section \<open>Contract workflow: \<^verbatim>\<open>processDocument\<close>\<close>

text \<open>
  The fallback of the contract workflow, entered when the tool returned without error and
  the declared text file does not exist. It yields the path the later steps read from: the
  first \<^verbatim>\<open>text.txt\<close> found from the current working directory. Nothing is copied and
  nothing is removed.
\<close>

definition locate_contract_text ::
  "'w host \<Rightarrow> 'w state \<Rightarrow> path \<Rightarrow> path option \<times> 'w state" where
  "locate_contract_text h s tempTextFile =
     (let s1 = console_error
                 [''Text file was not created at expected location:'', tempTextFile] s;
          w = world s in
      case fs_cwd h w of
        Inl e \<Rightarrow> (None, console_error [''Could not determine current working directory''] s1)
      | Inr cwd \<Rightarrow>
          (case fs_find h w cwd ''text.txt'' of
             Inr (found # others) \<Rightarrow> (Some found, s1)
           | _ \<Rightarrow> (None, console_error [''Could not locate extracted text file''] s1)))"

text \<open>Step 1: the extraction tool is run, with the arguments and options of the text
  workflow.\<close>

definition run_contract_extraction ::
  "'w host \<Rightarrow> 'w state \<Rightarrow> path \<Rightarrow> path \<Rightarrow> string \<Rightarrow> string \<Rightarrow> string \<Rightarrow> bool
     \<Rightarrow> path option \<times> 'w state" where
  "run_contract_extraction h s documentFile tempTextFile ocrTool ocrLlmTemplate contentType
       verbose =
     (let extractArgs = text_extract_args documentFile tempTextFile ocrTool ocrLlmTemplate
                          contentType verbose in
      case cliCommand h (world s) ''doc-to-text'' extractArgs (text_extract_options ocrTool) of
        (extractResult, w1) \<Rightarrow>
          let s1 = s\<lparr>world := w1\<rparr> in
          (case cmd_error extractResult of
             Some e \<Rightarrow>
               (None, console_errors
                  ([[''Text extraction failed:''],
                    [''Command: doc-to-text '' @ join_strings '' '' extractArgs],
                    [''Error:'', e]]
                   @ excerpt ''Standard Error Output:'' 10 (stderr extractResult)
                   @ excerpt ''Standard Output:'' 10 (stdout extractResult)) s1)
           | None \<Rightarrow>
               if \<not> fs_exists h w1 tempTextFile then locate_contract_text h s1 tempTextFile
               else (Some tempTextFile, s1)))"

text \<open>Steps 2 to 4: the text is read, the review tool is called and its answer saved.\<close>

definition review_and_save ::
  "'w host \<Rightarrow> 'w state \<Rightarrow> path \<Rightarrow> string \<Rightarrow> path \<Rightarrow> bool \<times> 'w state" where
  "review_and_save h s reviewOutputFile contractLlmTemplate tempTextFile =
     (case fs_read h (world s) tempTextFile of
        Inl e \<Rightarrow> (False, console_error [''Failed to read extracted text:'', e] s)
      | Inr content \<Rightarrow>
          if is_blank content then (False, console_error [''Extracted text is empty''] s)
          else
            (case cliCommand h (world s) ''llm-caller''
                    [''call'', contractLlmTemplate, ''--var'', ''text:text:'' @ content]
                    \<lparr>timeout = 600, interactive = False\<rparr> of
               (llmResult, w1) \<Rightarrow>
                 let s1 = s\<lparr>world := w1\<rparr> in
                 (case cmd_error llmResult of
                    Some e \<Rightarrow>
                      (False, console_errors
                         ([[''LLM analysis failed:''],
                           [''Command: llm-caller ''
                              @ join_strings '' '' [''call'', contractLlmTemplate]
                              @ '' --var text:text:[content]''],
                           [''Error:'', e]]
                          @ excerpt ''Standard Error Output:'' 10 (stderr llmResult)
                          @ excerpt ''Standard Output:'' 10 (stdout llmResult)) s1)
                  | None \<Rightarrow>
                      if is_blank (stdout llmResult) then
                        (False, console_error [''LLM analysis returned empty result''] s1)
                      else
                        (case fs_write h (world s1) reviewOutputFile (stdout llmResult) of
                           (Some e, w2) \<Rightarrow>
                             (False, console_error [''Failed to save review result:'', e]
                                       (s1\<lparr>world := w2\<rparr>))
                         | (None, w2) \<Rightarrow> (True, s1\<lparr>world := w2\<rparr>)))))"

definition processDocument ::
  "'w host \<Rightarrow> 'w state \<Rightarrow> path \<Rightarrow> path \<Rightarrow> string \<Rightarrow> string \<Rightarrow> string \<Rightarrow> string \<Rightarrow> bool
     \<Rightarrow> bool \<times> 'w state" where
  "processDocument h s documentFile reviewOutputFile ocrTool ocrLlmTemplate contractLlmTemplate
       contentType verbose =
     (let tempDir = fs_dirname h reviewOutputFile;
          baseName = fs_basename h documentFile;
          tempTextFile = fs_join h [tempDir, baseName @ ''.extracted.txt''] in
      case run_contract_extraction h s documentFile tempTextFile ocrTool ocrLlmTemplate
             contentType verbose of
        (None, s1) \<Rightarrow> (False, s1)
      | (Some textFile, s1) \<Rightarrow>
          review_and_save h s1 reviewOutputFile contractLlmTemplate textFile)"

section \<open>Receipt workflow: reading and parsing payloads\<close>

text \<open>
  \<^verbatim>\<open>readExistingReceiptData\<close> returns the parsed content, or \<^verbatim>\<open>null\<close> after a
  failure that it reports. The text of a caught exception depends on the engine, so the
  recorded line names the exception only.
\<close>

definition readExistingReceiptData :: "'w host \<Rightarrow> 'w state \<Rightarrow> path \<Rightarrow> json \<times> 'w state" where
  "readExistingReceiptData h s filePath =
     (case fs_read h (world s) filePath of
        Inl e \<Rightarrow> (JNull, console_error [''Failed to read existing receipt data:'', e] s)
      | Inr content \<Rightarrow>
          (case JSON_parse h content of
             Some data \<Rightarrow> (data, s)
           | None \<Rightarrow>
               (JNull,
                console_error [''Failed to parse existing receipt data:'', ''SyntaxError''] s)))"

text \<open>
  The pattern of \<^verbatim>\<open>parseExtractedData\<close>: an opening fence, an optional \<^verbatim>\<open>json\<close>,
  white space, the shortest text after which white space and a closing fence follow.
\<close>

definition starts_with :: "string \<Rightarrow> string \<Rightarrow> bool" where
  "starts_with p s = (take (length p) s = p)"

definition fence :: string where
  "fence = ''```''"

fun before_closing_fence :: "string \<Rightarrow> string option" where
  "before_closing_fence [] = None"
| "before_closing_fence (c # cs) =
     (if starts_with fence (dropWhile js_space (c # cs)) then Some []
      else map_option ((#) c) (before_closing_fence cs))"

fun fenced_block :: "string \<Rightarrow> string option" where
  "fenced_block [] = None"
| "fenced_block (c # cs) =
     (if starts_with fence (c # cs) then
        (let rest = drop 3 (c # cs);
             rest' = (if starts_with ''json'' rest then drop 4 rest else rest) in
         case before_closing_fence (dropWhile js_space rest') of
           Some captured \<Rightarrow> Some captured
         | None \<Rightarrow> fenced_block cs)
      else fenced_block cs)"

text \<open>
  \<^verbatim>\<open>parseExtractedData\<close>. Setting a property on \<^verbatim>\<open>null\<close> throws, which the function
  catches like a failed parse; setting one on another primitive does nothing; an array
  takes the two properties without its elements changing.
\<close>

definition parseExtractedData ::
  "'w host \<Rightarrow> 'w state \<Rightarrow> string \<Rightarrow> string \<Rightarrow> json \<times> 'w state" where
  "parseExtractedData h s llmOutput sourceFileName =
     (let jsonStr = (case fenced_block llmOutput of Some captured \<Rightarrow> captured
                     | None \<Rightarrow> llmOutput) in
      case JSON_parse h jsonStr of
        None \<Rightarrow> (JNull, console_error [''Error parsing LLM output:'', ''SyntaxError''] s)
      | Some JNull \<Rightarrow> (JNull, console_error [''Error parsing LLM output:'', ''TypeError''] s)
      | Some (JObj props) \<Rightarrow>
          (JObj (set_own ''extraction_timestamp'' (JStr (date_toISOString h (world s)))
                   (set_own ''source_file'' (JStr sourceFileName) props)), s)
      | Some data \<Rightarrow> (data, s))"

section \<open>Receipt workflow: \<^verbatim>\<open>processReceipt\<close>\<close>

definition ascii_alnum :: "char \<Rightarrow> bool" where
  "ascii_alnum c =
     ((CHR ''a'' \<le> c \<and> c \<le> CHR ''z'') \<or> (CHR ''A'' \<le> c \<and> c \<le> CHR ''Z'')
      \<or> (CHR ''0'' \<le> c \<and> c \<le> CHR ''9''))"

text \<open>The fingerprint of a document: its content hash, or a name made of its base name and the time.\<close>

definition calculateMd5 :: "'w host \<Rightarrow> 'w \<Rightarrow> path \<Rightarrow> string" where
  "calculateMd5 h w str =
     (let fallback = take 32 (filter ascii_alnum (fs_basename h str @ ''_'' @ date_getTime h w)) in
      if fs_exists h w str then
        (case fs_md5 h w str of Inr hash \<Rightarrow> hash | Inl e \<Rightarrow> fallback)
      else fallback)"

text \<open>\<^verbatim>\<open>name.endsWith(".txt")\<close>\<close>

definition ends_with :: "string \<Rightarrow> string \<Rightarrow> bool" where
  "ends_with suffix s = (length suffix \<le> length s \<and> drop (length s - length suffix) s = suffix)"

text \<open>
  The fallback of the receipt workflow, entered when the tool returned without error and the
  declared text file does not exist. It yields the path the later steps read from: a text
  file of the staging directory, else the first \<^verbatim>\<open>text.txt\<close> found from the current
  working directory. Nothing is copied and nothing is removed.

  \<open>staged_text\<close> is the first tier: the first entry of the staging directory that is not
  a directory and whose name ends in \<^verbatim>\<open>.txt\<close>, when the staging directory is the
  fingerprint-named one and exists; the declared path otherwise.
\<close>

definition staged_text :: "'w host \<Rightarrow> 'w \<Rightarrow> path \<Rightarrow> path \<Rightarrow> path \<Rightarrow> path" where
  "staged_text h w hashDir tempDir tempTextFile =
     (if hashDir \<noteq> tempDir \<and> fs_exists h w hashDir then
        (case fs_readdir h w hashDir of
           Inr files \<Rightarrow>
             (case find (\<lambda>f. ends_with ''.txt'' (fi_name f) \<and> \<not> fi_is_dir f) files of
                Some f \<Rightarrow> fi_path f
              | None \<Rightarrow> tempTextFile)
         | Inl e \<Rightarrow> tempTextFile)
      else tempTextFile)"

definition locate_receipt_text ::
  "'w host \<Rightarrow> 'w state \<Rightarrow> path \<Rightarrow> path \<Rightarrow> path \<Rightarrow> path option \<times> 'w state" where
  "locate_receipt_text h s hashDir tempDir tempTextFile =
     (let s1 = console_error
                 [''Text file was not created at expected location:'', tempTextFile] s;
          w = world s in
      case fs_cwd h w of
        Inl e \<Rightarrow> (None, console_error [''Could not determine current working directory''] s1)
      | Inr cwd \<Rightarrow>
          let candidate = staged_text h w hashDir tempDir tempTextFile in
          if fs_exists h w candidate then (Some candidate, s1)
          else
            (case fs_find h w cwd ''text.txt'' of
               Inr (found # others) \<Rightarrow> (Some found, s1)
             | _ \<Rightarrow> (None, console_error [''Could not locate extracted text file''] s1)))"

text \<open>Step 1 when no cached text exists: the extraction tool is run.\<close>

definition receipt_extract_args :: "path \<Rightarrow> path \<Rightarrow> bool \<Rightarrow> string list" where
  "receipt_extract_args documentFile tempTextFile verbose =
     [documentFile, ''--content-type'', ''image'', ''--ocr'', ''llm-caller'',
      ''--llm_template'', ''qwen-vl-ocr-image'', ''-o'', tempTextFile]
     @ (if verbose then [''--verbose''] else [])"

definition run_receipt_extraction ::
  "'w host \<Rightarrow> 'w state \<Rightarrow> path \<Rightarrow> bool \<Rightarrow> path \<Rightarrow> path \<Rightarrow> path \<Rightarrow> path option \<times> 'w state" where
  "run_receipt_extraction h s documentFile verbose hashDir tempDir tempTextFile =
     (case cliCommand h (world s) ''doc-to-text''
             (receipt_extract_args documentFile tempTextFile verbose)
             \<lparr>timeout = 600, interactive = False\<rparr> of
        (extractResult, w1) \<Rightarrow>
          let s1 = s\<lparr>world := w1\<rparr> in
          (case cmd_error extractResult of
             Some e \<Rightarrow>
               (None, console_errors
                  ([[''Text extraction failed:''], [''Error:'', e]]
                   @ excerpt ''Standard Error Output:'' 10 (stderr extractResult)) s1)
           | None \<Rightarrow>
               if \<not> fs_exists h w1 tempTextFile
               then locate_receipt_text h s1 hashDir tempDir tempTextFile
               else (Some tempTextFile, s1)))"

text \<open>
  Steps 3 to 5: the structuring tool is called, its answer parsed and the record saved.
\<close>

definition structure_and_save ::
  "'w host \<Rightarrow> 'w state \<Rightarrow> path \<Rightarrow> path \<Rightarrow> string \<Rightarrow> json \<times> 'w state" where
  "structure_and_save h s documentFile outputFile content =
     (case cliCommand h (world s) ''llm-caller''
             [''call'', ''deepseek-ticket-extraction'', ''--var'', ''text:text:'' @ content]
             \<lparr>timeout = 600, interactive = False\<rparr> of
        (llmResult, w1) \<Rightarrow>
          let s1 = s\<lparr>world := w1\<rparr> in
          (case cmd_error llmResult of
             Some e \<Rightarrow>
               (JNull, console_errors
                  ([[''LLM extraction failed:''], [''Error:'', e]]
                   @ excerpt ''Standard Error Output:'' 10 (stderr llmResult)) s1)
           | None \<Rightarrow>
               if is_blank (stdout llmResult) then
                 (JNull, console_error [''LLM extraction returned empty result''] s1)
               else
                 (case parseExtractedData h s1 (stdout llmResult) (fs_basename h documentFile) of
                    (extractedData, s2) \<Rightarrow>
                      if \<not> truthy extractedData then
                        (JNull, console_error [''Failed to parse structured data''] s2)
                      else
                        (case fs_write h (world s2) outputFile
                                (JSON_stringify h extractedData) of
                           (Some e, w3) \<Rightarrow>
                             (JNull, console_error [''Failed to save extracted data:'', e]
                                       (s2\<lparr>world := w3\<rparr>))
                         | (None, w3) \<Rightarrow> (extractedData, s2\<lparr>world := w3\<rparr>)))))"

text \<open>
  Step 2 and the check that follows it: the text is read and must not be blank; an existing
  output file that parses to a truthy value is returned as the result of the function.
\<close>

definition read_text_and_structure ::
  "'w host \<Rightarrow> 'w state \<Rightarrow> path \<Rightarrow> path \<Rightarrow> path \<Rightarrow> json \<times> 'w state" where
  "read_text_and_structure h s documentFile outputFile tempTextFile =
     (case fs_read h (world s) tempTextFile of
        Inl e \<Rightarrow> (JNull, console_error [''Failed to read extracted text:'', e] s)
      | Inr content \<Rightarrow>
          if is_blank content then (JNull, console_error [''Extracted text is empty''] s)
          else if fs_exists h (world s) outputFile then
            (case readExistingReceiptData h s outputFile of
               (existingData, s1) \<Rightarrow>
                 if truthy existingData then (existingData, s1)
                 else structure_and_save h s1 documentFile outputFile content)
          else structure_and_save h s documentFile outputFile content)"

text \<open>
  The staging directory and the path of the cached text: the start of
  \<^verbatim>\<open>processReceipt\<close>. The result is the directory in use, the path of the text file and
  the state after the directory was created.
\<close>

definition receipt_staging ::
  "'w host \<Rightarrow> 'w state \<Rightarrow> path \<Rightarrow> path \<Rightarrow> (path \<times> path \<times> path) \<times> 'w state" where
  "receipt_staging h s documentFile outputFile =
     (let md5Hash = calculateMd5 h (world s) documentFile;
          tempDir = fs_dirname h outputFile;
          baseName = fs_basename h documentFile;
          hashDir0 = fs_join h [tempDir, md5Hash] in
      case (if \<not> fs_exists h (world s) hashDir0 then
              (case fs_mkdir h (world s) hashDir0 of
                 (Some e, w') \<Rightarrow>
                   (tempDir, console_error [''Failed to create hash directory:'', e]
                               (s\<lparr>world := w'\<rparr>))
               | (None, w') \<Rightarrow> (hashDir0, s\<lparr>world := w'\<rparr>))
            else (hashDir0, s)) of
        (hashDir, s1) \<Rightarrow>
          ((hashDir, tempDir, fs_join h [hashDir, baseName @ ''.extracted.txt'']), s1))"

definition processReceipt ::
  "'w host \<Rightarrow> 'w state \<Rightarrow> path \<Rightarrow> path \<Rightarrow> bool \<Rightarrow> json \<times> 'w state" where
  "processReceipt h s documentFile outputFile verbose =
     (case receipt_staging h s documentFile outputFile of
        ((hashDir, tempDir, tempTextFile), s1) \<Rightarrow>
          let skipTextExtraction = fs_exists h (world s1) tempTextFile in
          (case (if \<not> skipTextExtraction
                 then run_receipt_extraction h s1 documentFile verbose hashDir tempDir
                        tempTextFile
                 else (Some tempTextFile, s1)) of
             (None, s2) \<Rightarrow> (JNull, s2)
           | (Some textFile, s2) \<Rightarrow>
               read_text_and_structure h s2 documentFile outputFile textFile))"

section \<open>Receipt workflow: grouped summaries\<close>

text \<open>
  Reading a property of a parsed value by a fixed name that no prototype defines
  (\<^verbatim>\<open>type-code\<close>, \<^verbatim>\<open>fields\<close>): an own property of an object, else
  \<^verbatim>\<open>undefined\<close>, which is \<open>JNull\<close> here (only its truthiness is used). Reading a
  property of \<^verbatim>\<open>null\<close> throws.
\<close>

definition get_prop :: "json \<Rightarrow> string \<Rightarrow> js_error + json" where
  "get_prop v k =
     (case v of
        JNull \<Rightarrow> Inl TypeError
      | JObj ps \<Rightarrow> Inr (case map_of ps k of Some x \<Rightarrow> x | None \<Rightarrow> JNull)
      | _ \<Rightarrow> Inr JNull)"

definition determineReceiptType :: "json \<Rightarrow> js_error + json" where
  "determineReceiptType receipt =
     (case get_prop receipt ''type-code'' of
        Inl e \<Rightarrow> Inl e
      | Inr typeCode \<Rightarrow>
          if truthy typeCode then Inr typeCode
          else
            (case get_prop receipt ''fields'' of
               Inl e \<Rightarrow> Inl e
             | Inr fieldsValue \<Rightarrow>
                 if \<not> truthy fieldsValue then Inr JNull
                 else
                   (case get_prop fieldsValue ''type-code'' of
                      Inl e \<Rightarrow> Inl e
                    | Inr fieldsTypeCode \<Rightarrow>
                        if truthy fieldsTypeCode then Inr fieldsTypeCode else Inr JNull)))"

text \<open>
  The names that every object inherits from \<^verbatim>\<open>Object.prototype\<close>. Looking one of them up
  on the grouping object, which starts as \<^verbatim>\<open>{}\<close>, finds the inherited member, which is
  truthy and has no \<^verbatim>\<open>push\<close>.
\<close>

definition object_prototype_names :: "string list" where
  "object_prototype_names =
     [''constructor'', ''toString'', ''toLocaleString'', ''valueOf'', ''hasOwnProperty'',
      ''isPrototypeOf'', ''propertyIsEnumerable'', ''__proto__'', ''__defineGetter__'',
      ''__defineSetter__'', ''__lookupGetter__'', ''__lookupSetter__'']"

text \<open>
  One iteration of \<^verbatim>\<open>groupReceiptsByType\<close> for a receipt whose type is truthy. The groups
  are kept in the order of their creation.
\<close>

fun push_receipt :: "string \<Rightarrow> json \<Rightarrow> (string \<times> json list) list \<Rightarrow> (string \<times> json list) list" where
  "push_receipt k r [] = [(k, [r])]"
| "push_receipt k r ((k', rs) # groups) =
     (if k' = k then (k', rs @ [r]) # groups else (k', rs) # push_receipt k r groups)"

fun group_loop ::
  "json list \<Rightarrow> (string \<times> json list) list \<Rightarrow> js_error + (string \<times> json list) list" where
  "group_loop [] groups = Inr groups"
| "group_loop (receipt # rest) groups =
     (case determineReceiptType receipt of
        Inl e \<Rightarrow> Inl e
      | Inr receiptType \<Rightarrow>
          if \<not> truthy receiptType then group_loop rest groups
          else
            (case js_toString receiptType of
               Inl e \<Rightarrow> Inl e
             | Inr key \<Rightarrow>
                 if key \<notin> set (map fst groups) \<and> key \<in> set object_prototype_names
                 then Inl TypeError
                 else group_loop rest (push_receipt key receipt groups)))"

definition groupReceiptsByType :: "json list \<Rightarrow> js_error + (string \<times> json list) list" where
  "groupReceiptsByType receipts = group_loop receipts []"

text \<open>The directory of the summary files: \<^verbatim>\<open>total\<close> under the output path, or the output
  path itself when that directory cannot be created.\<close>

definition summary_directory :: "'w host \<Rightarrow> 'w state \<Rightarrow> path \<Rightarrow> path \<times> 'w state" where
  "summary_directory h s outputPath =
     (let totalDirPath = fs_join h [outputPath, ''total''] in
      if \<not> fs_exists h (world s) totalDirPath then
        (case fs_mkdir h (world s) totalDirPath of
           (Some e, w') \<Rightarrow>
             (outputPath, console_error [''Failed to create '' @ quoted ''total'' @ '' directory:'', e]
                            (s\<lparr>world := w'\<rparr>))
         | (None, w') \<Rightarrow> (totalDirPath, s\<lparr>world := w'\<rparr>))
      else (totalDirPath, s))"

definition typeFilePath :: "'w host \<Rightarrow> path \<Rightarrow> string \<Rightarrow> string \<Rightarrow> path" where
  "typeFilePath h totalDirPath receiptType outputFormat =
     fs_join h [totalDirPath,
       ''receipts_'' @ sanitizeFileName receiptType @ ''.''
         @ (if outputFormat = ''csv'' then ''csv'' else ''json'')]"

text \<open>
  The loop over the groups. The text of a summary file (\<^verbatim>\<open>createTotalCsv\<close> for the
  format \<^verbatim>\<open>csv\<close>, \<^verbatim>\<open>JSON.stringify\<close> otherwise) is the parameter \<open>render\<close>: no
  property below depends on what it returns, and it is allowed to throw.
\<close>

fun summary_loop ::
  "'w host \<Rightarrow> (string \<Rightarrow> json list \<Rightarrow> js_error + string) \<Rightarrow> path \<Rightarrow> string \<Rightarrow> bool
     \<Rightarrow> (string \<times> json list) list \<Rightarrow> path list \<Rightarrow> 'w state \<Rightarrow> (js_error + path list) \<times> 'w state"
where
  "summary_loop h render totalDirPath outputFormat overwrite [] results s = (Inr results, s)"
| "summary_loop h render totalDirPath outputFormat overwrite ((receiptType, typeReceipts) # rest)
       results s =
     (if length typeReceipts > 0 \<and> receiptType \<noteq> ''general'' then
        (let path = typeFilePath h totalDirPath receiptType outputFormat in
         if \<not> overwrite \<and> fs_exists h (world s) path then
           summary_loop h render totalDirPath outputFormat overwrite rest results s
         else
           (case render outputFormat typeReceipts of
              Inl e \<Rightarrow> (Inl e, s)
            | Inr typeContent \<Rightarrow>
                (case fs_write h (world s) path typeContent of
                   (Some e, w') \<Rightarrow>
                     summary_loop h render totalDirPath outputFormat overwrite rest results
                       (console_error [''Failed to save type summary file:'', e]
                          (s\<lparr>world := w'\<rparr>))
                 | (None, w') \<Rightarrow>
                     summary_loop h render totalDirPath outputFormat overwrite rest
                       (results @ [path]) (s\<lparr>world := w'\<rparr>))))
      else summary_loop h render totalDirPath outputFormat overwrite rest results s)"

text \<open>\<^verbatim>\<open>createSummaryFile\<close>; the empty list stands for the \<^verbatim>\<open>null\<close> it returns when it
  wrote nothing.\<close>

definition createSummaryFile ::
  "'w host \<Rightarrow> (string \<Rightarrow> json list \<Rightarrow> js_error + string) \<Rightarrow> 'w state \<Rightarrow> json list \<Rightarrow> path
     \<Rightarrow> string \<Rightarrow> bool \<Rightarrow> (js_error + path list) \<times> 'w state" where
  "createSummaryFile h render s receipts outputPath outputFormat overwrite =
     (case summary_directory h s outputPath of
        (totalDirPath, s1) \<Rightarrow>
          (case groupReceiptsByType receipts of
             Inl e \<Rightarrow> (Inl e, s1)
           | Inr receiptsByType \<Rightarrow>
               summary_loop h render totalDirPath outputFormat overwrite
                 (enumeration_order receiptsByType) [] s1))"

section \<open>Receipt workflow: \<^verbatim>\<open>main\<close>\<close>

record receipt_counts =
  successCount :: nat
  failureCount :: nat
  skippedCount :: nat
  allReceipts :: "json list"

text \<open>The per-file loop of the receipt workflow.\<close>

fun receipt_loop ::
  "'w host \<Rightarrow> path \<Rightarrow> bool \<Rightarrow> bool \<Rightarrow> bool \<Rightarrow> path list \<Rightarrow> receipt_counts \<Rightarrow> 'w state
     \<Rightarrow> receipt_counts \<times> 'w state" where
  "receipt_loop h outputPath isBatchProcessing overwrite verbose [] counts s = (counts, s)"
| "receipt_loop h outputPath isBatchProcessing overwrite verbose (documentFile # rest) counts s =
     (let baseName = fs_basename h documentFile;
          receiptOutputFile = determineReceiptOutputPath h (world s) documentFile baseName
                                outputPath isBatchProcessing in
      if \<not> overwrite \<and> fs_exists h (world s) receiptOutputFile then
        (case readExistingReceiptData h s receiptOutputFile of
           (existingData, s') \<Rightarrow>
             receipt_loop h outputPath isBatchProcessing overwrite verbose rest
               (if truthy existingData then
                  counts\<lparr>allReceipts := allReceipts counts @ [existingData],
                         skippedCount := skippedCount counts + 1\<rparr>
                else counts) s')
      else
        (case processReceipt h s documentFile receiptOutputFile verbose of
           (extractedData, s') \<Rightarrow>
             receipt_loop h outputPath isBatchProcessing overwrite verbose rest
               (if truthy extractedData then
                  counts\<lparr>successCount := successCount counts + 1,
                         allReceipts := (if isBatchProcessing
                                         then allReceipts counts @ [extractedData]
                                         else allReceipts counts)\<rparr>
                else counts\<lparr>failureCount := failureCount counts + 1\<rparr>) s'))"

text \<open>
  \<^verbatim>\<open>main\<close> of the receipt workflow. The result is \<open>Inl\<close> when an exception leaves the
  function, else the returned boolean, with the tallies when the per-file loop was reached.
\<close>

definition main_receipt_from_output ::
  "'w host \<Rightarrow> (string \<Rightarrow> json list \<Rightarrow> js_error + string) \<Rightarrow> 'w state \<Rightarrow> path \<Rightarrow> path
     \<Rightarrow> string \<Rightarrow> bool \<Rightarrow> bool \<Rightarrow> (js_error + bool \<times> receipt_counts option) \<times> 'w state" where
  "main_receipt_from_output h render s inputPath outputPath0 outputFormat overwrite verbose =
     (let isBatchProcessing = fs_isDir h (world s) inputPath in
      case (if truthy_str outputPath0
            then (case validateOutputPath h s outputPath0 isBatchProcessing of
                    (Invalid e, s') \<Rightarrow> (None, console_error [''Error:'', e] s')
                  | (Valid p, s') \<Rightarrow> (Some p, s'))
            else (Some outputPath0, s)) of
        (None, s1) \<Rightarrow> (Inr (False, None), s1)
      | (Some outputPath, s1) \<Rightarrow>
          (case checkCliTool h False s1 ''doc-to-text'' of
             (False, s2) \<Rightarrow> (Inr (False, None), s2)
           | (True, s2) \<Rightarrow>
               (case checkCliTool h False s2 ''llm-caller'' of
                  (False, s3) \<Rightarrow> (Inr (False, None), s3)
                | (True, s3) \<Rightarrow>
                    (case getDocumentFiles_receipt h s3 inputPath documentExtensions_receipt of
                       (documentFiles, s4) \<Rightarrow>
                         if length documentFiles = 0 then
                           (Inr (False, None),
                            console_error
                              [''No supported document files found in:'', inputPath] s4)
                         else
                           (case receipt_loop h outputPath isBatchProcessing overwrite verbose
                                   documentFiles
                                   \<lparr>successCount = 0, failureCount = 0, skippedCount = 0,
                                    allReceipts = []\<rparr> s4 of
                              (counts, s5) \<Rightarrow>
                                if isBatchProcessing \<and> length (allReceipts counts) > 0 then
                                  (case createSummaryFile h render s5 (allReceipts counts)
                                          (if truthy_str outputPath then outputPath
                                           else inputPath)
                                          outputFormat overwrite of
                                     (Inl e, s6) \<Rightarrow> (Inl e, s6)
                                   | (Inr summaryFiles, s6) \<Rightarrow>
                                       (Inr (True, Some counts), s6))
                                else (Inr (True, Some counts), s5))))))"

definition main_receipt ::
  "'w host \<Rightarrow> (string \<Rightarrow> json list \<Rightarrow> js_error + string) \<Rightarrow> 'w state
     \<Rightarrow> (js_error + bool \<times> receipt_counts option) \<times> 'w state" where
  "main_receipt h render s =
     (let inputPath = getVar h ''input'';
          outputPath = getVar h ''output'';
          outputFormat = (if truthy_str (getVar h ''format'') then getVar h ''format''
                          else ''json'');
          overwrite = (getVar h ''overwrite'' = ''true'');
          verbose = (getVar h ''verbose'' = ''true'') in
      if \<not> truthy_str inputPath then
        (Inr (False, None), console_error [''Error: Input path is required''] s)
      else if \<not> fs_exists h (world s) inputPath then
        (Inr (False, None), console_error [''Error: Input path does not exist:'', inputPath] s)
      else main_receipt_from_output h render s inputPath outputPath outputFormat overwrite
             verbose)"

section \<open>A concrete host for the examples\<close>

text \<open>
  Modelled from the spec: the host runtime (file-system primitives, process execution, run
  configuration) is not part of the repository's sources; section 6 of the specification
  gives its contract, and this small host follows it. It is used only to run the workflows
  on concrete inputs. A world holds the regular files with their content, the directories,
  the working directory, the paths on which creating, writing and listing fail, the content
  hashes, and the effect of each of the tool runs still to come.
\<close>

record sim_step =
  step_result :: cmd_result
  step_writes :: "(path \<times> string) list"

record sim_world =
  sim_files :: "(path \<times> string) list"
  sim_dirs :: "path list"
  sim_cwd :: path
  sim_locked :: "path list"
  sim_hashes :: "(path \<times> string) list"
  sim_script :: "sim_step list"

definition sim_filename :: "path \<Rightarrow> string" where
  "sim_filename p = rev (takeWhile (\<lambda>c. c \<noteq> CHR ''/'') (rev p))"

definition sim_dirname :: "path \<Rightarrow> path" where
  "sim_dirname p =
     (if CHR ''/'' \<notin> set p then ''.''
      else let d = rev (drop 1 (dropWhile (\<lambda>c. c \<noteq> CHR ''/'') (rev p)))
           in if d = [] then ''/'' else d)"

definition sim_ext :: "path \<Rightarrow> string" where
  "sim_ext p =
     (let f = sim_filename p in
      if CHR ''.'' \<in> set f then CHR ''.'' # rev (takeWhile (\<lambda>c. c \<noteq> CHR ''.'') (rev f))
      else [])"

definition sim_basename :: "path \<Rightarrow> string" where
  "sim_basename p =
     (let f = sim_filename p in take (length f - length (sim_ext p)) f)"

fun put_file :: "path \<Rightarrow> string \<Rightarrow> (path \<times> string) list \<Rightarrow> (path \<times> string) list" where
  "put_file p c [] = [(p, c)]"
| "put_file p c (f # fs) = (if fst f = p then (p, c) # fs else f # put_file p c fs)"

definition sim_exists :: "sim_world \<Rightarrow> path \<Rightarrow> bool" where
  "sim_exists w p = (p \<in> set (map fst (sim_files w)) \<or> p \<in> set (sim_dirs w))"

text \<open>The listing of a directory: its direct entries only.\<close>

definition sim_readdir :: "sim_world \<Rightarrow> path \<Rightarrow> string + file_info list" where
  "sim_readdir w p =
     (if p \<in> set (sim_locked w) then Inl ''permission denied''
      else if p \<notin> set (sim_dirs w) then Inl ''not a directory''
      else Inr
        (map (\<lambda>f. \<lparr>fi_name = sim_filename f, fi_path = f, fi_is_dir = False\<rparr>)
           (filter (\<lambda>f. sim_dirname f = p) (map fst (sim_files w)))
         @ map (\<lambda>d. \<lparr>fi_name = sim_filename d, fi_path = d, fi_is_dir = True\<rparr>)
             (filter (\<lambda>d. sim_dirname d = p) (sim_dirs w))))"

text \<open>
  The pattern search is recursive: it returns every path below the root, at any depth,
  whose file name matches (the pattern is \<^verbatim>\<open>*\<close> or a file name).
\<close>

definition sim_find :: "sim_world \<Rightarrow> path \<Rightarrow> string \<Rightarrow> string + path list" where
  "sim_find w root pattern =
     (if root \<in> set (sim_locked w) then Inl ''permission denied''
      else Inr (filter (\<lambda>p. take (length root + 1) p = root @ ''/''
                            \<and> (pattern = ''*'' \<or> sim_filename p = pattern))
                  (map fst (sim_files w) @ sim_dirs w)))"

definition sim_mkdir :: "sim_world \<Rightarrow> path \<Rightarrow> string option \<times> sim_world" where
  "sim_mkdir w p =
     (if p \<in> set (sim_locked w) then (Some ''permission denied'', w)
      else if p \<in> set (sim_dirs w) then (None, w)
      else (None, w\<lparr>sim_dirs := sim_dirs w @ [p]\<rparr>))"

definition sim_read :: "sim_world \<Rightarrow> path \<Rightarrow> string + string" where
  "sim_read w p =
     (case map_of (sim_files w) p of None \<Rightarrow> Inl ''no such file'' | Some c \<Rightarrow> Inr c)"

definition sim_write :: "sim_world \<Rightarrow> path \<Rightarrow> string \<Rightarrow> string option \<times> sim_world" where
  "sim_write w p c =
     (if p \<in> set (sim_locked w) then (Some ''permission denied'', w)
      else (None, w\<lparr>sim_files := put_file p c (sim_files w)\<rparr>))"

definition sim_rm :: "sim_world \<Rightarrow> path \<Rightarrow> sim_world" where
  "sim_rm w p = w\<lparr>sim_files := filter (\<lambda>f. fst f \<noteq> p) (sim_files w)\<rparr>"

text \<open>A tool run takes the next step of the script; with no step left the tool is missing.\<close>

definition sim_cliCommand ::
  "sim_world \<Rightarrow> string \<Rightarrow> string list \<Rightarrow> cmd_options \<Rightarrow> cmd_result \<times> sim_world" where
  "sim_cliCommand w command args options =
     (case sim_script w of
        [] \<Rightarrow> (\<lparr>stdout = [], stderr = [], cmd_error = Some ''command not found''\<rparr>, w)
      | step # steps \<Rightarrow>
          (step_result step,
           w\<lparr>sim_files := fold (\<lambda>(p, c). put_file p c) (step_writes step) (sim_files w),
             sim_script := steps\<rparr>))"

text \<open>
  The host over these worlds. The run configuration and the answers of \<^verbatim>\<open>JSON.parse\<close>
  are tables; \<^verbatim>\<open>JSON.stringify\<close> and the clock are fixed.
\<close>

definition sim_host ::
  "(string \<times> string) list \<Rightarrow> (string \<times> json) list \<Rightarrow> sim_world host" where
  "sim_host config parses =
     \<lparr>getVar = (\<lambda>k. case map_of config k of None \<Rightarrow> [] | Some v \<Rightarrow> v),
      fs_exists = sim_exists,
      fs_isFile = (\<lambda>w p. p \<in> set (map fst (sim_files w))),
      fs_isDir = (\<lambda>w p. p \<in> set (sim_dirs w)),
      fs_readdir = sim_readdir,
      fs_mkdir = sim_mkdir,
      fs_read = sim_read,
      fs_write = sim_write,
      fs_rm = sim_rm,
      fs_join = join_strings ''/'',
      fs_abs = (\<lambda>w p. Inr p),
      fs_ext = sim_ext,
      fs_filename = sim_filename,
      fs_basename = sim_basename,
      fs_dirname = sim_dirname,
      fs_find = sim_find,
      fs_cwd = (\<lambda>w. Inr (sim_cwd w)),
      fs_md5 = (\<lambda>w p. case map_of (sim_hashes w) p of None \<Rightarrow> Inl ''cannot hash''
                        | Some x \<Rightarrow> Inr x),
      cliCommand = sim_cliCommand,
      date_getTime = (\<lambda>w. ''1700000000000''),
      date_toISOString = (\<lambda>w. ''2023-11-14T22:13:20.000Z''),
      JSON_parse = map_of parses,
      JSON_stringify = (\<lambda>v. ''{}'')\<rparr>"

definition sim_start :: "sim_world \<Rightarrow> sim_world state" where
  "sim_start w = \<lparr>world = w, errors = []\<rparr>"

text \<open>A tool run that succeeds with the given standard output and writes the given files.\<close>

definition tool_ok :: "string \<Rightarrow> (path \<times> string) list \<Rightarrow> sim_step" where
  "tool_ok out writes =
     \<lparr>step_result = \<lparr>stdout = out, stderr = [], cmd_error = None\<rparr>, step_writes = writes\<rparr>"

text \<open>A summary text for the examples.\<close>

definition render_fixed :: "string \<Rightarrow> json list \<Rightarrow> js_error + string" where
  "render_fixed outputFormat receipts = Inr ''summary''"

section \<open>Example worlds\<close>

text \<open>
  A directory \<^verbatim>\<open>/in\<close> with a document in capitals, a text file, a file without an
  extension, a file of another type and a subdirectory whose name ends like a document.
  Nothing can be created at \<^verbatim>\<open>/sealed\<close>.
\<close>

definition w_documents :: sim_world where
  "w_documents =
     \<lparr>sim_files = [(''/in/b.PDF'', ''pdf''), (''/in/a.txt'', ''text''), (''/in/README'', ''r''),
                   (''/in/c.exe'', ''exe''), (''/in/old.pdf/d.pdf'', ''nested'')],
      sim_dirs = [''/in'', ''/in/old.pdf''], sim_cwd = ''/work'', sim_locked = [''/sealed''],
      sim_hashes = [], sim_script = []\<rparr>"

text \<open>A media directory with one clip at the top and one in a subdirectory.\<close>

definition w_media :: sim_world where
  "w_media =
     \<lparr>sim_files = [(''/in/a.mp4'', ''x''), (''/in/sub/b.mp4'', ''y'')],
      sim_dirs = [''/in'', ''/in/sub''], sim_cwd = ''/work'', sim_locked = [],
      sim_hashes = [], sim_script = []\<rparr>"

text \<open>
  An input directory that cannot be listed, and one that can be listed and holds no
  document; in both the availability probe of the extraction tool succeeds.
\<close>

definition w_unlistable :: sim_world where
  "w_unlistable =
     \<lparr>sim_files = [(''/in/a.pdf'', ''pdf'')], sim_dirs = [''/in''], sim_cwd = ''/work'',
      sim_locked = [''/in''], sim_hashes = [], sim_script = [tool_ok ''usage'' []]\<rparr>"

definition w_no_documents :: sim_world where
  "w_no_documents =
     \<lparr>sim_files = [(''/in/c.exe'', ''exe'')], sim_dirs = [''/in''], sim_cwd = ''/work'',
      sim_locked = [], sim_hashes = [], sim_script = [tool_ok ''usage'' []]\<rparr>"

text \<open>
  A receipt \<^verbatim>\<open>/in/r.png\<close> and an extraction tool that ignores the requested output
  path and writes \<^verbatim>\<open>text.txt\<close> below the working directory; the second tool run is the
  structuring tool, whose answer is \<^verbatim>\<open>NEW\<close>.
\<close>

definition w_stray_text :: sim_world where
  "w_stray_text =
     \<lparr>sim_files = [(''/in/r.png'', ''image'')], sim_dirs = [''/in'', ''/out'', ''/work''],
      sim_cwd = ''/work'', sim_locked = [], sim_hashes = [(''/in/r.png'', ''h1'')],
      sim_script = [tool_ok [] [(''/work/abc/text.txt'', ''TOTAL 12.50'')], tool_ok ''NEW'' []]\<rparr>"

text \<open>
  The same receipt with an extraction tool that writes \<^verbatim>\<open>text.txt\<close> into the
  staging directory and another one below the working directory.
\<close>

definition w_staged_text :: sim_world where
  "w_staged_text =
     \<lparr>sim_files = [(''/in/r.png'', ''image'')],
      sim_dirs = [''/in'', ''/out'', ''/out/h1'', ''/work''],
      sim_cwd = ''/work'', sim_locked = [], sim_hashes = [(''/in/r.png'', ''h1'')],
      sim_script = [tool_ok [] [(''/out/h1/text.txt'', ''TOTAL 12.50''),
                                (''/work/abc/text.txt'', ''OTHER'')],
                    tool_ok ''NEW'' []]\<rparr>"

text \<open>
  The receipt with the stray text of \<open>w_stray_text\<close>, where the declared output of the
  text workflow cannot be written; and one where the only \<^verbatim>\<open>text.txt\<close> below the
  working directory is a directory, which cannot be read.
\<close>

definition w_stray_text_sealed :: sim_world where
  "w_stray_text_sealed = w_stray_text\<lparr>sim_locked := [''/out/r.txt'']\<rparr>"

definition w_text_directory :: sim_world where
  "w_text_directory =
     \<lparr>sim_files = [(''/in/r.png'', ''image'')],
      sim_dirs = [''/in'', ''/out'', ''/work'', ''/work/abc'', ''/work/abc/text.txt''],
      sim_cwd = ''/work'', sim_locked = [], sim_hashes = [(''/in/r.png'', ''h1'')],
      sim_script = [tool_ok [] []]\<rparr>"

text \<open>The same receipt with an extraction tool that writes nothing at all.\<close>

definition w_no_text :: sim_world where
  "w_no_text =
     \<lparr>sim_files = [(''/in/r.png'', ''image'')], sim_dirs = [''/in'', ''/out'', ''/work''],
      sim_cwd = ''/work'', sim_locked = [], sim_hashes = [(''/in/r.png'', ''h1'')],
      sim_script = [tool_ok [] []]\<rparr>"

text \<open>What \<^verbatim>\<open>JSON.parse\<close> answers in the examples.\<close>

definition example_parses :: "(string \<times> json) list" where
  "example_parses =
     [(''OLD'', JObj [(''type-code'', JStr ''invoice'')]),
      (''NEW'', JObj [(''type-code'', JStr ''taxi'')]),
      (''CONSTRUCTOR'', JObj [(''type-code'', JStr ''constructor'')])]"

text \<open>
  A single receipt whose cached text and whose final output both exist. The tool runs to
  come are the two availability probes and one answer of the structuring tool.
\<close>

definition w_overwrite :: sim_world where
  "w_overwrite =
     \<lparr>sim_files = [(''/in/r.png'', ''image''), (''/out/r.receipt.json'', ''OLD''),
                   (''/out/h1/r.extracted.txt'', ''TOTAL 12.50'')],
      sim_dirs = [''/in'', ''/out'', ''/out/h1'', ''/work''], sim_cwd = ''/work'',
      sim_locked = [], sim_hashes = [(''/in/r.png'', ''h1'')],
      sim_script = [tool_ok ''usage'' [], tool_ok ''usage'' [], tool_ok ''NEW'' []]\<rparr>"

definition config_overwrite :: "(string \<times> string) list" where
  "config_overwrite = [(''input'', ''/in/r.png''), (''output'', ''/out''), (''overwrite'', ''true'')]"

text \<open>
  A batch of one receipt whose output exists from an earlier run, with the given content;
  the tool runs to come are the two availability probes.
\<close>

definition w_resume :: "string \<Rightarrow> sim_world" where
  "w_resume content =
     \<lparr>sim_files = [(''/in/a.png'', ''image''), (''/out/a.receipt.json'', content)],
      sim_dirs = [''/in'', ''/out'', ''/work''], sim_cwd = ''/work'',
      sim_locked = [], sim_hashes = [(''/in/a.png'', ''h2'')],
      sim_script = [tool_ok ''usage'' [], tool_ok ''usage'' []]\<rparr>"

text \<open>
  A batch of two receipts whose outputs exist from an earlier run: the first output does not
  parse, the second does.
\<close>

definition w_resume_pair :: sim_world where
  "w_resume_pair =
     \<lparr>sim_files = [(''/in/a.png'', ''image''), (''/in/b.png'', ''image''),
                   (''/out/a.receipt.json'', ''garbage''), (''/out/b.receipt.json'', ''OLD'')],
      sim_dirs = [''/in'', ''/out'', ''/work''], sim_cwd = ''/work'',
      sim_locked = [], sim_hashes = [(''/in/a.png'', ''h2''), (''/in/b.png'', ''h3'')],
      sim_script = [tool_ok ''usage'' [], tool_ok ''usage'' []]\<rparr>"

definition config_batch :: "(string \<times> string) list" where
  "config_batch = [(''input'', ''/in''), (''output'', ''/out'')]"



section \<open>Auxiliary notions used in the statements and proofs\<close>

text \<open>The file test of discovery: the root itself when it is a regular file, or an entry of
  the root's listing that is not flagged as a directory.\<close>

definition listed_file :: "'w host \<Rightarrow> 'w \<Rightarrow> path \<Rightarrow> path \<Rightarrow> bool" where
  "listed_file h w root p =
     ((p = root \<and> fs_isFile h w root \<and> \<not> fs_isDir h w root)
      \<or> (case fs_readdir h w root of
            Inr entries \<Rightarrow> list_ex (\<lambda>fi. fi_path fi = p \<and> \<not> fi_is_dir fi) entries
          | Inl e \<Rightarrow> False))"

text \<open>The extension that the receipt workflow compares with its allow-list.\<close>

definition dotted_ext :: "'w host \<Rightarrow> path \<Rightarrow> string" where
  "dotted_ext h p =
     (let lowered = toLowerCase (fs_ext h p)
      in if hd lowered \<noteq> CHR ''.'' then CHR ''.'' # lowered else lowered)"



text \<open>A parsed object: distinct keys, listed in enumeration order.\<close>

definition wf_object :: "(string \<times> json) list \<Rightarrow> bool" where
  "wf_object obj = (distinct (map fst obj) \<and> enumeration_order obj = obj)"

text \<open>The key of the group that a receipt goes to: the text of its type, when it has one.\<close>

definition type_name :: "json \<Rightarrow> string option" where
  "type_name receipt =
     (case determineReceiptType receipt of
        Inl e \<Rightarrow> None
      | Inr receiptType \<Rightarrow>
          if truthy receiptType
          then (case js_toString receiptType of Inl e \<Rightarrow> None | Inr key \<Rightarrow> Some key)
          else None)"

section \<open>Basic facts about the state\<close>

lemma world_console_error [simp]: "world (console_error line s) = world s"
  by (simp add: console_error_def)

lemma world_console_errors [simp]: "world (console_errors lines s) = world s"
  by (simp add: console_errors_def)





section \<open>Properties of the file-name rule\<close>









lemma repl_char: "c \<noteq> CHR ''-'' \<Longrightarrow> (if name_char c then c else CHR ''_'') = (if lower_alnum c then c else CHR ''_'')"
  by (auto simp: name_char_def)









section \<open>Properties of flattening\<close>

lemma set_own_fresh: "k \<notin> fst ` set r \<Longrightarrow> set_own k v r = r @ [(k, v)]"
  by (induction r) auto

lemma hasOwnProperty_parsed:
  "''hasOwnProperty'' \<notin> set (map fst self) \<Longrightarrow>
   hasOwnProperty (parsed self) k = Inr (k \<in> set (map fst self))"
  by (simp add: hasOwnProperty_def parsed_def data_in_chain_def)

lemma assign_parsed:
  "k \<noteq> ''__proto__'' \<Longrightarrow> k \<notin> fst ` set r \<Longrightarrow> assign (parsed r) k v = parsed (r @ [(k, v)])"
  by (simp add: assign_def parsed_def set_own_fresh)

lemma flatten_loop_flat:
  "\<lbrakk> ''hasOwnProperty'' \<notin> set (map fst self); set (map fst rest) \<subseteq> set (map fst self);
     distinct (map fst rest); fst ` set rest \<inter> fst ` set result = {};
     ''__proto__'' \<notin> set (map fst rest); is_flat rest \<rbrakk>
   \<Longrightarrow> flatten_loop self rest [] (parsed result) = Inr (parsed (result @ without_type_code rest))"
proof (induction rest arbitrary: result)
  case Nil
  then show ?case by (simp add: without_type_code_def)
next
  case (Cons p rest)
  obtain k v where p: "p = (k, v)" by (cases p)
  have own: "hasOwnProperty (parsed self) k = Inr True"
    using Cons.prems p by (auto simp: hasOwnProperty_parsed)
  show ?case
  proof (cases "k = ''type-code''")
    case True
    then show ?thesis using Cons p own
      by (auto simp: truthy_str_def without_type_code_def is_flat_def)
  next
    case False
    have fresh: "k \<notin> fst ` set result" using Cons.prems p by auto
    have kp: "k \<noteq> ''__proto__''" using Cons.prems p by auto
    have step: "flatten_loop self (p # rest) [] (parsed result)
                  = flatten_loop self rest [] (parsed (result @ [(k, v)]))"
      using Cons.prems p own False assign_parsed [OF kp fresh]
      by (cases v) (auto simp: truthy_str_def is_flat_def)
    have "flatten_loop self rest [] (parsed (result @ [(k, v)]))
            = Inr (parsed ((result @ [(k, v)]) @ without_type_code rest))"
      using Cons.prems p by (intro Cons.IH) (auto simp: is_flat_def)
    then show ?thesis using step False p by (simp add: without_type_code_def)
  qed
qed

lemma enumeration_order_filter:
  "enumeration_order (filter P props) = filter P (enumeration_order props)"
proof -
  have "filter (\<lambda>(k, v). is_array_index k) (filter P props)
          = filter P (filter (\<lambda>(k, v). is_array_index k) props)"
    and "filter (\<lambda>(k, v). \<not> is_array_index k) (filter P props)
          = filter P (filter (\<lambda>(k, v). \<not> is_array_index k) props)"
    by (induction props) auto
  then show ?thesis
    by (simp add: enumeration_order_def filter_sort)
qed

lemma flattenObject_flat:
  "\<lbrakk> is_flat obj; wf_object obj; ''hasOwnProperty'' \<notin> set (map fst obj);
     ''__proto__'' \<notin> set (map fst obj) \<rbrakk>
   \<Longrightarrow> flattenObject obj [] = Inr (parsed (without_type_code obj))
       \<and> for_in (parsed (without_type_code obj)) = map fst (without_type_code obj)"
  using flatten_loop_flat [of obj obj "[]"]
  by (simp add: wf_object_def without_type_code_def enumeration_order_filter for_in_def
      inherited_keys_def parsed_def)

text \<open>
  Claim C9. Flattening an already-flat record should return the record unchanged except for
  the discriminant field \<^verbatim>\<open>type-code\<close>. The lemma above shows that this is what
  \<^verbatim>\<open>flattenObject\<close> does for every flat record whose keys leave the names
  \<^verbatim>\<open>hasOwnProperty\<close> and \<^verbatim>\<open>__proto__\<close> alone. The theorem below evaluates the
  function on the flat record \<^verbatim>\<open>{"hasOwnProperty": 1}\<close>: the guard
  \<^verbatim>\<open>obj.hasOwnProperty(key)\<close> finds the record's own property instead of the inherited
  method, and the call throws instead of returning the record.
\<close>

theorem flattenObject_shadowed_guard:
  "is_flat [(''hasOwnProperty'', JNum ''1'')]
   \<and> without_type_code [(''hasOwnProperty'', JNum ''1'')] = [(''hasOwnProperty'', JNum ''1'')]
   \<and> flattenObject [(''hasOwnProperty'', JNum ''1'')] [] = Inl TypeError"
  by (simp add: is_flat_def without_type_code_def hasOwnProperty_def parsed_def)

section \<open>Properties of Document Discovery\<close>

lemma discovery_with_sorted: "sorted (fst (getDocumentFilesWith isDoc h s root exts))"
  by (simp add: getDocumentFilesWith_def Let_def split: sum.splits)

lemma discovery_with_members:
  assumes "p \<in> set (fst (getDocumentFilesWith isDoc h s root exts))"
  shows "isDoc p exts \<and> listed_file h (world s) root p"
  using assms
  by (auto simp: getDocumentFilesWith_def Let_def listed_file_def list_ex_iff
      split: sum.splits if_splits)

lemma video_sorted: "sorted (fst (getVideoFiles h s root exts))"
  by (simp add: getVideoFiles_def Let_def split: sum.splits)

lemma video_members:
  assumes "p \<in> set (fst (getVideoFiles h s root exts))"
  shows "isDocumentFile h p exts \<and> fs_isFile h (world s) p"
  using assms
  by (auto simp: getVideoFiles_def Let_def split: sum.splits if_splits)

lemma toLowerCase_empty: "toLowerCase e = [] \<longleftrightarrow> e = []"
  by (simp add: toLowerCase_def)

lemma isDocumentFile_ext:
  "[] \<notin> set exts \<Longrightarrow> isDocumentFile h p exts \<Longrightarrow>
     fs_ext h p \<noteq> [] \<and> toLowerCase (fs_ext h p) \<in> set exts"
  by (auto simp: isDocumentFile_def toLowerCase_def)

lemma isDocumentFile_receipt_ext:
  "isDocumentFile_receipt h p exts \<longleftrightarrow> fs_ext h p \<noteq> [] \<and> dotted_ext h p \<in> set exts"
  by (auto simp: isDocumentFile_receipt_def dotted_ext_def truthy_str_def Let_def)

text \<open>
  Claim C7. For every input, a single file or a directory, discovery returns its candidates
  sorted ascending by path, and every candidate is the root itself as a regular file or an
  entry of the root's listing that is not a directory (for the media workflow: a path that
  the host reports as a regular file), with a non-empty extension that is on the allow-list
  after lower-casing. A path without extension fails the extension test, which returns
  \<open>False\<close> and raises nothing. The allow-lists of the workflows do not contain the
  empty string, which is the hypothesis.
\<close>

theorem discovery_sorted_and_filtered:
  assumes "[] \<notin> set exts"
  shows
    "(sorted (fst (getDocumentFiles h s root exts))
      \<and> (\<forall>p \<in> set (fst (getDocumentFiles h s root exts)).
            listed_file h (world s) root p
            \<and> fs_ext h p \<noteq> [] \<and> toLowerCase (fs_ext h p) \<in> set exts))
     \<and> (sorted (fst (getDocumentFiles_receipt h s root exts))
      \<and> (\<forall>p \<in> set (fst (getDocumentFiles_receipt h s root exts)).
            listed_file h (world s) root p
            \<and> fs_ext h p \<noteq> [] \<and> dotted_ext h p \<in> set exts))
     \<and> (sorted (fst (getVideoFiles h s root exts))
      \<and> (\<forall>p \<in> set (fst (getVideoFiles h s root exts)).
            fs_isFile h (world s) p
            \<and> fs_ext h p \<noteq> [] \<and> toLowerCase (fs_ext h p) \<in> set exts))
     \<and> (\<forall>p. fs_ext h p = [] \<longrightarrow>
            \<not> isDocumentFile h p exts \<and> \<not> isDocumentFile_receipt h p exts)"
proof -
  have a: "sorted (fst (getDocumentFiles h s root exts))"
    and b: "sorted (fst (getDocumentFiles_receipt h s root exts))"
    by (simp_all add: getDocumentFiles_def getDocumentFiles_receipt_def discovery_with_sorted)
  have c: "\<forall>p \<in> set (fst (getDocumentFiles h s root exts)).
            listed_file h (world s) root p
            \<and> fs_ext h p \<noteq> [] \<and> toLowerCase (fs_ext h p) \<in> set exts"
    using discovery_with_members [of _ "isDocumentFile h" h s root exts]
      isDocumentFile_ext [OF assms, of h]
    by (auto simp: getDocumentFiles_def)
  have d: "\<forall>p \<in> set (fst (getDocumentFiles_receipt h s root exts)).
            listed_file h (world s) root p
            \<and> fs_ext h p \<noteq> [] \<and> dotted_ext h p \<in> set exts"
    using discovery_with_members [of _ "isDocumentFile_receipt h" h s root exts]
    by (auto simp: getDocumentFiles_receipt_def isDocumentFile_receipt_ext)
  have e: "\<forall>p \<in> set (fst (getVideoFiles h s root exts)).
            fs_isFile h (world s) p
            \<and> fs_ext h p \<noteq> [] \<and> toLowerCase (fs_ext h p) \<in> set exts"
    using video_members [of _ h s root exts] isDocumentFile_ext [OF assms, of h]
    by auto
  have f: "\<forall>p. fs_ext h p = [] \<longrightarrow>
            \<not> isDocumentFile h p exts \<and> \<not> isDocumentFile_receipt h p exts"
    using assms by (auto simp: isDocumentFile_def toLowerCase_def isDocumentFile_receipt_ext)
  show ?thesis using a b c d e f video_sorted by blast
qed

theorem discovery_sorted_and_filtered_witness:
  "[] \<notin> set documentExtensions_text
   \<and> fst (getDocumentFiles (sim_host [] []) (sim_start w_documents) ''/in''
            documentExtensions_text) = [''/in/a.txt'', ''/in/b.PDF'']
   \<and> sorted (fst (getDocumentFiles (sim_host [] []) (sim_start w_documents) ''/in''
            documentExtensions_text))
   \<and> listed_file (sim_host [] []) w_documents ''/in'' ''/in/b.PDF''
   \<and> \<not> listed_file (sim_host [] []) w_documents ''/in'' ''/in/old.pdf''
   \<and> fs_ext (sim_host [] []) ''/in/README'' = []"
proof -
  have h: "[] \<notin> set documentExtensions_text"
    by (simp add: documentExtensions_text_def)
  have e: "fst (getDocumentFiles (sim_host [] []) (sim_start w_documents) ''/in''
            documentExtensions_text) = [''/in/a.txt'', ''/in/b.PDF'']"
    by code_simp
  have l: "listed_file (sim_host [] []) w_documents ''/in'' ''/in/b.PDF''"
    by code_simp
  have n: "\<not> listed_file (sim_host [] []) w_documents ''/in'' ''/in/old.pdf''"
    by code_simp
  have x: "fs_ext (sim_host [] []) ''/in/README'' = []"
    by code_simp
  from discovery_sorted_and_filtered [OF h, of "sim_host [] []" "sim_start w_documents" "''/in''"]
  have "sorted (fst (getDocumentFiles (sim_host [] []) (sim_start w_documents) ''/in''
            documentExtensions_text))" by blast
  then show ?thesis using h e l n x by simp
qed

text \<open>
  Claim C4, as amended. For a directory as the root, the three document workflows take the
  host's listing of the root, which holds its direct entries only, and keep each entry that
  is not a directory and whose extension matches. The media workflow takes the result of the
  host's pattern search instead and keeps each found path that is a regular file with a
  matching extension.
\<close>

theorem discovery_lists_what_the_host_returns:
  assumes "fs_exists h (world s) root" and "fs_isDir h (world s) root"
  shows
    "(\<forall>entries. fs_readdir h (world s) root = Inr entries \<longrightarrow>
        fst (getDocumentFiles h s root exts)
          = sort (map fi_path (filter (\<lambda>fi. \<not> fi_is_dir fi
                                          \<and> isDocumentFile h (fi_path fi) exts) entries))
        \<and> fst (getDocumentFiles_receipt h s root exts)
          = sort (map fi_path (filter (\<lambda>fi. \<not> fi_is_dir fi
                                          \<and> isDocumentFile_receipt h (fi_path fi) exts) entries)))
     \<and> (\<forall>found. fs_find h (world s) root ''*'' = Inr found \<longrightarrow>
        fst (getVideoFiles h s root exts)
          = sort (filter (\<lambda>p. fs_isFile h (world s) p \<and> isDocumentFile h p exts) found))"
  using assms
  by (simp add: getDocumentFiles_def getDocumentFiles_receipt_def getDocumentFilesWith_def
      getVideoFiles_def Let_def)

theorem discovery_lists_what_the_host_returns_witness:
  "fs_exists (sim_host [] []) w_documents ''/in''
   \<and> fs_isDir (sim_host [] []) w_documents ''/in''
   \<and> fst (getDocumentFiles (sim_host [] []) (sim_start w_documents) ''/in''
            documentExtensions_text) = [''/in/a.txt'', ''/in/b.PDF'']
   \<and> fst (getDocumentFiles_receipt (sim_host [] []) (sim_start w_documents) ''/in''
            documentExtensions_receipt) = [''/in/a.txt'', ''/in/b.PDF'']
   \<and> fst (getVideoFiles (sim_host [] []) (sim_start w_documents) ''/in''
            documentExtensions_text) = [''/in/a.txt'', ''/in/b.PDF'', ''/in/old.pdf/d.pdf'']"
proof -
  have a: "fs_exists (sim_host [] []) (world (sim_start w_documents)) ''/in''"
    and b: "fs_isDir (sim_host [] []) (world (sim_start w_documents)) ''/in''"
    by code_simp+
  have c: "fst (getDocumentFiles (sim_host [] []) (sim_start w_documents) ''/in''
            documentExtensions_text) = [''/in/a.txt'', ''/in/b.PDF'']"
    by code_simp
  have d: "fst (getDocumentFiles_receipt (sim_host [] []) (sim_start w_documents) ''/in''
            documentExtensions_receipt) = [''/in/a.txt'', ''/in/b.PDF'']"
    by code_simp
  have e: "fst (getVideoFiles (sim_host [] []) (sim_start w_documents) ''/in''
            documentExtensions_text) = [''/in/a.txt'', ''/in/b.PDF'', ''/in/old.pdf/d.pdf'']"
    by code_simp
  have w: "world (sim_start w_documents) = w_documents"
    by (simp add: sim_start_def)
  show ?thesis
    using discovery_lists_what_the_host_returns [OF a b, of documentExtensions_text] a b c d e
    unfolding w by blast
qed

text \<open>
  Claim C4 as stated fails for the media workflow: with one clip at the top of the root and
  one in a subdirectory, the listing of the root has the first clip and the subdirectory,
  and discovery returns both clips.
\<close>

theorem media_discovery_recurses:
  "fs_readdir (sim_host [] []) w_media ''/in''
     = Inr [\<lparr>fi_name = ''a.mp4'', fi_path = ''/in/a.mp4'', fi_is_dir = False\<rparr>,
            \<lparr>fi_name = ''sub'', fi_path = ''/in/sub'', fi_is_dir = True\<rparr>]
   \<and> fst (getVideoFiles (sim_host [] []) (sim_start w_media) ''/in'' videoExtensions)
     = [''/in/a.mp4'', ''/in/sub/b.mp4'']"
  by code_simp

lemma discovery_with_failure:
  "(\<not> fs_exists h (world s) root \<longrightarrow>
      getDocumentFilesWith isDoc h s root exts = ([], console_error [''Cannot access:'', root] s))
   \<and> (\<forall>e. fs_exists h (world s) root \<and> fs_isDir h (world s) root
            \<and> fs_readdir h (world s) root = Inl e \<longrightarrow>
      getDocumentFilesWith isDoc h s root exts
        = ([], console_error [''Failed to list directory:'', e] s))
   \<and> (\<forall>entries. fs_exists h (world s) root \<and> fs_isDir h (world s) root
            \<and> fs_readdir h (world s) root = Inr entries
            \<and> (\<forall>fi \<in> set entries. fi_is_dir fi \<or> \<not> isDoc (fi_path fi) exts) \<longrightarrow>
      getDocumentFilesWith isDoc h s root exts = ([], s))"
  by (auto simp: getDocumentFilesWith_def Let_def filter_empty_conv)

lemma media_discovery_failure:
  "(\<not> fs_exists h (world s) root \<longrightarrow>
      getVideoFiles h s root exts = ([], console_error [''Cannot access:'', root] s))
   \<and> (\<forall>e. fs_exists h (world s) root \<and> fs_isDir h (world s) root
            \<and> fs_find h (world s) root ''*'' = Inl e \<longrightarrow>
      getVideoFiles h s root exts = ([], s))
   \<and> (\<forall>found. fs_exists h (world s) root \<and> fs_isDir h (world s) root
            \<and> fs_find h (world s) root ''*'' = Inr found
            \<and> (\<forall>p \<in> set found. \<not> fs_isFile h (world s) p \<or> \<not> isDocumentFile h p exts) \<longrightarrow>
      getVideoFiles h s root exts = ([], s))"
  by (auto simp: getVideoFiles_def Let_def filter_empty_conv)

text \<open>
  Claim C5, as amended. When the root does not exist, discovery returns the empty list and
  writes one line to the error console, in every workflow. When the root is a directory
  whose listing fails, the document workflows return the empty list and write one line to
  the error console; the media workflow, whose search fails, returns the empty list and
  writes nothing. The returned value is in each case the same empty list that an existing,
  listable root without a matching file gives, for which nothing is written: for the
  document workflows the console line is the only difference, for the media workflow there
  is none.
\<close>

theorem discovery_failure_returns_empty_list:
  "(\<not> fs_exists h (world s) root \<longrightarrow>
      getDocumentFiles h s root exts = ([], console_error [''Cannot access:'', root] s)
      \<and> getDocumentFiles_receipt h s root exts
          = ([], console_error [''Cannot access:'', root] s)
      \<and> getVideoFiles h s root exts = ([], console_error [''Cannot access:'', root] s))
   \<and> (\<forall>e. fs_exists h (world s) root \<and> fs_isDir h (world s) root
            \<and> fs_readdir h (world s) root = Inl e \<longrightarrow>
      getDocumentFiles h s root exts
        = ([], console_error [''Failed to list directory:'', e] s)
      \<and> getDocumentFiles_receipt h s root exts
        = ([], console_error [''Failed to list directory:'', e] s))
   \<and> (\<forall>e. fs_exists h (world s) root \<and> fs_isDir h (world s) root
            \<and> fs_find h (world s) root ''*'' = Inl e \<longrightarrow>
      getVideoFiles h s root exts = ([], s))
   \<and> (\<forall>entries. fs_exists h (world s) root \<and> fs_isDir h (world s) root
            \<and> fs_readdir h (world s) root = Inr entries
            \<and> (\<forall>fi \<in> set entries. fi_is_dir fi \<or> \<not> isDocumentFile h (fi_path fi) exts) \<longrightarrow>
      getDocumentFiles h s root exts = ([], s))
   \<and> (\<forall>entries. fs_exists h (world s) root \<and> fs_isDir h (world s) root
            \<and> fs_readdir h (world s) root = Inr entries
            \<and> (\<forall>fi \<in> set entries. fi_is_dir fi
                   \<or> \<not> isDocumentFile_receipt h (fi_path fi) exts) \<longrightarrow>
      getDocumentFiles_receipt h s root exts = ([], s))
   \<and> (\<forall>found. fs_exists h (world s) root \<and> fs_isDir h (world s) root
            \<and> fs_find h (world s) root ''*'' = Inr found
            \<and> (\<forall>p \<in> set found. \<not> fs_isFile h (world s) p \<or> \<not> isDocumentFile h p exts) \<longrightarrow>
      getVideoFiles h s root exts = ([], s))"
  using discovery_with_failure [of h s root "isDocumentFile h" exts]
    discovery_with_failure [of h s root "isDocumentFile_receipt h" exts]
    media_discovery_failure [of h s root exts]
  unfolding getDocumentFiles_def getDocumentFiles_receipt_def by blast

theorem discovery_failure_returns_empty_list_witness:
  "fs_exists (sim_host [] []) w_unlistable ''/in''
   \<and> fs_isDir (sim_host [] []) w_unlistable ''/in''
   \<and> fs_readdir (sim_host [] []) w_unlistable ''/in'' = Inl ''permission denied''
   \<and> fs_find (sim_host [] []) w_unlistable ''/in'' ''*'' = Inl ''permission denied''
   \<and> getDocumentFiles (sim_host [] []) (sim_start w_unlistable) ''/in'' documentExtensions_text
       = ([], console_error [''Failed to list directory:'', ''permission denied'']
                (sim_start w_unlistable))
   \<and> getDocumentFiles_receipt (sim_host [] []) (sim_start w_unlistable) ''/in''
         documentExtensions_text
       = ([], console_error [''Failed to list directory:'', ''permission denied'']
                (sim_start w_unlistable))
   \<and> getVideoFiles (sim_host [] []) (sim_start w_unlistable) ''/in'' documentExtensions_text
       = ([], sim_start w_unlistable)
   \<and> \<not> fs_exists (sim_host [] []) w_unlistable ''/nowhere''
   \<and> getDocumentFiles (sim_host [] []) (sim_start w_unlistable) ''/nowhere''
         documentExtensions_text
       = ([], console_error [''Cannot access:'', ''/nowhere''] (sim_start w_unlistable))
   \<and> getVideoFiles (sim_host [] []) (sim_start w_unlistable) ''/nowhere''
         documentExtensions_text
       = ([], console_error [''Cannot access:'', ''/nowhere''] (sim_start w_unlistable))
   \<and> getDocumentFiles (sim_host [] []) (sim_start w_no_documents) ''/in''
         documentExtensions_text
       = ([], sim_start w_no_documents)
   \<and> getVideoFiles (sim_host [] []) (sim_start w_no_documents) ''/in''
         documentExtensions_text
       = ([], sim_start w_no_documents)"
proof -
  have w: "world (sim_start w_unlistable) = w_unlistable"
    by (simp add: sim_start_def)
  have a: "fs_exists (sim_host [] []) w_unlistable ''/in''"
    and b: "fs_isDir (sim_host [] []) w_unlistable ''/in''"
    and c: "fs_readdir (sim_host [] []) w_unlistable ''/in'' = Inl ''permission denied''"
    and c': "fs_find (sim_host [] []) w_unlistable ''/in'' ''*'' = Inl ''permission denied''"
    and d: "\<not> fs_exists (sim_host [] []) w_unlistable ''/nowhere''"
    by code_simp+
  have e: "getDocumentFiles (sim_host [] []) (sim_start w_no_documents) ''/in''
         documentExtensions_text = ([], sim_start w_no_documents)"
    by code_simp
  have f: "getVideoFiles (sim_host [] []) (sim_start w_no_documents) ''/in''
         documentExtensions_text = ([], sim_start w_no_documents)"
    by code_simp
  note listing = discovery_failure_returns_empty_list
            [of "sim_host [] []" "sim_start w_unlistable" "''/in''" documentExtensions_text,
             unfolded w]
  note nowhere = discovery_failure_returns_empty_list
            [of "sim_host [] []" "sim_start w_unlistable" "''/nowhere''" documentExtensions_text,
             unfolded w]
  have l1: "getDocumentFiles (sim_host [] []) (sim_start w_unlistable) ''/in''
              documentExtensions_text
       = ([], console_error [''Failed to list directory:'', ''permission denied'']
                (sim_start w_unlistable))"
    using listing a b c by blast
  have l2: "getDocumentFiles_receipt (sim_host [] []) (sim_start w_unlistable) ''/in''
              documentExtensions_text
       = ([], console_error [''Failed to list directory:'', ''permission denied'']
                (sim_start w_unlistable))"
    using listing a b c by blast
  have l3: "getVideoFiles (sim_host [] []) (sim_start w_unlistable) ''/in''
              documentExtensions_text = ([], sim_start w_unlistable)"
    using listing a b c' by blast
  have n1: "getDocumentFiles (sim_host [] []) (sim_start w_unlistable) ''/nowhere''
         documentExtensions_text
       = ([], console_error [''Cannot access:'', ''/nowhere''] (sim_start w_unlistable))"
    using nowhere d by blast
  have n2: "getVideoFiles (sim_host [] []) (sim_start w_unlistable) ''/nowhere''
         documentExtensions_text
       = ([], console_error [''Cannot access:'', ''/nowhere''] (sim_start w_unlistable))"
    using nowhere d by blast
  show ?thesis
    using a b c c' d e f l1 l2 l3 n1 n2 by simp
qed

text \<open>
  Claim C5 as stated fails: a root whose listing fails and a listable root without documents
  give the caller the same value, and \<^verbatim>\<open>main\<close> returns the same result for both. In
  the media workflow the failed search leaves no trace at all.
\<close>

theorem discovery_error_not_in_result:
  "fs_readdir (sim_host [] []) w_unlistable ''/in'' = Inl ''permission denied''
   \<and> fs_readdir (sim_host [] []) w_no_documents ''/in''
       = Inr [\<lparr>fi_name = ''c.exe'', fi_path = ''/in/c.exe'', fi_is_dir = False\<rparr>]
   \<and> fst (getDocumentFiles (sim_host [] []) (sim_start w_unlistable) ''/in''
            documentExtensions_text)
     = fst (getDocumentFiles (sim_host [] []) (sim_start w_no_documents) ''/in''
            documentExtensions_text)
   \<and> fst (main_text (sim_host [(''input'', ''/in'')] []) (sim_start w_unlistable))
     = fst (main_text (sim_host [(''input'', ''/in'')] []) (sim_start w_no_documents))
   \<and> fs_find (sim_host [] []) w_unlistable ''/in'' ''*'' = Inl ''permission denied''
   \<and> getVideoFiles (sim_host [] []) (sim_start w_unlistable) ''/in'' videoExtensions
     = ([], sim_start w_unlistable)"
  by code_simp

section \<open>Properties of the Path Resolver\<close>

text \<open>
  Claim C6. In batch mode a successful result is a directory: an existing path that is not a
  directory is rejected, an absent path is created, a failed creation is returned as an
  error that ends with the host's message. In single-file mode an existing path, file or
  directory, is accepted. That the created path and its absolute form are directories is
  the host's contract, stated as the two hypotheses.
\<close>

theorem validateOutputPath_modes:
  assumes mk: "\<forall>w'. fs_mkdir h (world s) p = (None, w') \<longrightarrow> fs_isDir h w' p"
      and ab: "\<forall>w q. fs_abs h w p = Inr q \<longrightarrow> fs_isDir h w q = fs_isDir h w p"
  shows
    "(\<forall>q s'. validateOutputPath h s p True = (Valid q, s') \<longrightarrow> fs_isDir h (world s') q)
     \<and> (fs_exists h (world s) p \<and> \<not> fs_isDir h (world s) p \<longrightarrow>
          (\<exists>msg. validateOutputPath h s p True = (Invalid msg, s)))
     \<and> (\<forall>e w'. \<not> fs_exists h (world s) p \<and> fs_mkdir h (world s) p = (Some e, w') \<longrightarrow>
          (\<exists>msg. validateOutputPath h s p True = (Invalid (msg @ e), s\<lparr>world := w'\<rparr>)))
     \<and> (\<forall>w'. \<not> fs_exists h (world s) p \<and> fs_mkdir h (world s) p = (None, w') \<longrightarrow>
          validateOutputPath h s p True = (Valid (abs_or_same h w' p), s\<lparr>world := w'\<rparr>))
     \<and> (fs_exists h (world s) p \<longrightarrow> (\<exists>q. validateOutputPath h s p False = (Valid q, s)))"
proof -
  have dir: "fs_isDir h w p \<Longrightarrow> fs_isDir h w (abs_or_same h w p)" for w
    using ab by (auto simp: abs_or_same_def split: sum.splits)
  have 1: "\<forall>q s'. validateOutputPath h s p True = (Valid q, s') \<longrightarrow> fs_isDir h (world s') q"
    using mk dir
    by (auto simp: validateOutputPath_def Let_def split: if_splits prod.splits option.splits)
  have 2: "fs_exists h (world s) p \<and> \<not> fs_isDir h (world s) p \<longrightarrow>
          (\<exists>msg. validateOutputPath h s p True = (Invalid msg, s))"
    by (simp add: validateOutputPath_def Let_def)
  have 3: "\<forall>e w'. \<not> fs_exists h (world s) p \<and> fs_mkdir h (world s) p = (Some e, w') \<longrightarrow>
          (\<exists>msg. validateOutputPath h s p True = (Invalid (msg @ e), s\<lparr>world := w'\<rparr>))"
    by (auto simp: validateOutputPath_def Let_def)
  have 4: "\<forall>w'. \<not> fs_exists h (world s) p \<and> fs_mkdir h (world s) p = (None, w') \<longrightarrow>
          validateOutputPath h s p True = (Valid (abs_or_same h w' p), s\<lparr>world := w'\<rparr>)"
    by (simp add: validateOutputPath_def Let_def)
  have 5: "fs_exists h (world s) p \<longrightarrow> (\<exists>q. validateOutputPath h s p False = (Valid q, s))"
    by (simp add: validateOutputPath_def Let_def)
  show ?thesis using 1 2 3 4 5 by blast
qed

theorem validateOutputPath_modes_witness:
  "fst (validateOutputPath (sim_host [] []) (sim_start w_documents) ''/out'' True) = Valid ''/out''
   \<and> fs_isDir (sim_host [] [])
        (world (snd (validateOutputPath (sim_host [] []) (sim_start w_documents) ''/out'' True)))
        ''/out''
   \<and> fst (validateOutputPath (sim_host [] []) (sim_start w_documents) ''/in/a.txt'' True)
       = Invalid (''For batch processing, output path must be a directory, but ''
                  @ quoted ''/in/a.txt'' @ '' is a file'')
   \<and> fst (validateOutputPath (sim_host [] []) (sim_start w_documents) ''/sealed'' True)
       = Invalid (''Cannot create output directory '' @ quoted ''/sealed''
                  @ '': permission denied'')
   \<and> validateOutputPath (sim_host [] []) (sim_start w_documents) ''/in/a.txt'' False
       = (Valid ''/in/a.txt'', sim_start w_documents)
   \<and> validateOutputPath (sim_host [] []) (sim_start w_documents) ''/in'' False
       = (Valid ''/in'', sim_start w_documents)"
proof -
  let ?h = "sim_host [] []" and ?s = "sim_start w_documents"
  have mk: "\<forall>w'. fs_mkdir ?h (world ?s) ''/out'' = (None, w') \<longrightarrow> fs_isDir ?h w' ''/out''"
    by (auto simp: sim_host_def sim_mkdir_def split: if_splits)
  have ab: "\<forall>w q. fs_abs ?h w ''/out'' = Inr q \<longrightarrow> fs_isDir ?h w q = fs_isDir ?h w ''/out''"
    by (simp add: sim_host_def)
  have v: "validateOutputPath ?h ?s ''/out'' True
             = (fst (validateOutputPath ?h ?s ''/out'' True),
                snd (validateOutputPath ?h ?s ''/out'' True))"
    by simp
  have a: "fst (validateOutputPath ?h ?s ''/out'' True) = Valid ''/out''"
    by code_simp
  have d: "fs_isDir ?h (world (snd (validateOutputPath ?h ?s ''/out'' True))) ''/out''"
    using validateOutputPath_modes [OF mk ab] a v by metis
  have b: "fst (validateOutputPath ?h ?s ''/in/a.txt'' True)
       = Invalid (''For batch processing, output path must be a directory, but ''
                  @ quoted ''/in/a.txt'' @ '' is a file'')"
    by code_simp
  have c: "fst (validateOutputPath ?h ?s ''/sealed'' True)
       = Invalid (''Cannot create output directory '' @ quoted ''/sealed''
                  @ '': permission denied'')"
    by code_simp
  have e: "validateOutputPath ?h ?s ''/in/a.txt'' False = (Valid ''/in/a.txt'', ?s)"
    by code_simp
  have f: "validateOutputPath ?h ?s ''/in'' False = (Valid ''/in'', ?s)"
    by code_simp
  show ?thesis using a b c d e f by simp
qed


section \<open>Properties of the Fallback Output Locator\<close>

lemma verify_text_output_world: "world (snd (verify_text_output h s out)) = world s"
  by (simp add: verify_text_output_def console_error_def split: sum.splits)

lemma verify_text_output_result:
  "fst (verify_text_output h s out)
     = (case fs_read h (world s) out of Inr text \<Rightarrow> \<not> is_blank text | Inl e \<Rightarrow> False)"
  by (simp add: verify_text_output_def split: sum.splits)

lemma locate_receipt_text_world: "world (snd (locate_receipt_text h s hdir tdir tmp)) = world s"
  by (simp add: locate_receipt_text_def console_error_def Let_def
      split: sum.splits list.splits)

lemma find_first: "\<forall>g \<in> set before. \<not> P g \<Longrightarrow> P f \<Longrightarrow> find P (before @ f # after) = Some f"
  by (induction before) auto

lemma find_none: "\<forall>g \<in> set files. \<not> P g \<Longrightarrow> find P files = None"
  by (induction files) auto

lemma staged_text_hit:
  "hashDir \<noteq> tempDir \<Longrightarrow> fs_exists h w hashDir \<Longrightarrow>
   fs_readdir h w hashDir = Inr (before @ f # after) \<Longrightarrow>
   \<forall>g \<in> set before. \<not> (ends_with ''.txt'' (fi_name g) \<and> \<not> fi_is_dir g) \<Longrightarrow>
   ends_with ''.txt'' (fi_name f) \<and> \<not> fi_is_dir f \<Longrightarrow>
   staged_text h w hashDir tempDir tmp = fi_path f"
  using find_first [of before "\<lambda>f. ends_with ''.txt'' (fi_name f) \<and> \<not> fi_is_dir f" f after]
  by (simp add: staged_text_def)

lemma staged_text_miss:
  assumes absent: "\<not> fs_exists h w tmp"
    and miss: "hashDir = tempDir \<or> \<not> fs_exists h w hashDir
       \<or> (\<exists>e. fs_readdir h w hashDir = Inl e)
       \<or> (\<exists>files. fs_readdir h w hashDir = Inr files
             \<and> (\<forall>g \<in> set files. \<not> (ends_with ''.txt'' (fi_name g) \<and> \<not> fi_is_dir g)))
       \<or> (\<exists>before f after. fs_readdir h w hashDir = Inr (before @ f # after)
             \<and> (\<forall>g \<in> set before. \<not> (ends_with ''.txt'' (fi_name g) \<and> \<not> fi_is_dir g))
             \<and> ends_with ''.txt'' (fi_name f) \<and> \<not> fi_is_dir f
             \<and> \<not> fs_exists h w (fi_path f))"
  shows "\<not> fs_exists h w (staged_text h w hashDir tempDir tmp)"
proof -
  let ?P = "\<lambda>f. ends_with ''.txt'' (fi_name f) \<and> \<not> fi_is_dir f"
  consider (guard) "hashDir = tempDir \<or> \<not> fs_exists h w hashDir"
    | (err) e where "fs_readdir h w hashDir = Inl e"
    | (none) files where "fs_readdir h w hashDir = Inr files" "\<forall>g \<in> set files. \<not> ?P g"
    | (gone) before f after where "hashDir \<noteq> tempDir" "fs_exists h w hashDir"
        "fs_readdir h w hashDir = Inr (before @ f # after)"
        "\<forall>g \<in> set before. \<not> ?P g" "?P f" "\<not> fs_exists h w (fi_path f)"
    using miss by blast
  then show ?thesis
  proof cases
    case guard
    then have "staged_text h w hashDir tempDir tmp = tmp" by (auto simp: staged_text_def)
    then show ?thesis using absent by simp
  next
    case err
    then have "staged_text h w hashDir tempDir tmp = tmp" by (simp add: staged_text_def)
    then show ?thesis using absent by simp
  next
    case none
    have "find ?P files = None" using none(2) by (rule find_none)
    then have "staged_text h w hashDir tempDir tmp = tmp"
      using none(1) by (simp add: staged_text_def)
    then show ?thesis using absent by simp
  next
    case gone
    have "staged_text h w hashDir tempDir tmp = fi_path f"
      using staged_text_hit [OF gone(1,2,3,4,5)] .
    then show ?thesis using gone(6) by simp
  qed
qed

text \<open>
  Claim C2, as amended. The declared output is absent after a tool run without error.

  In the text workflow the first \<^verbatim>\<open>text.txt\<close> found from the working directory is
  copied (its content is written to the declared output) and then removed, and the stage
  succeeds exactly when the declared output then reads back as text that is not blank. When
  the candidate cannot be read, or the declared output cannot be written, the stage fails
  and the candidate is left where it is; the stage also fails when no candidate is found and
  when the working directory is unknown.

  In the receipt workflow the candidate is used where it lies: the world after the stage
  is the world the tool left. The candidate is the first entry of the staging directory
  that is not a directory and whose name ends in \<^verbatim>\<open>.txt\<close>, provided that the
  staging directory is the fingerprint-named one, exists and can be listed, and that the
  entry exists; otherwise it is the first \<^verbatim>\<open>text.txt\<close> found from the working
  directory. The stage fails when there is neither, and when the working directory is
  unknown.

  In the contract workflow the candidate is the first \<^verbatim>\<open>text.txt\<close> found from the
  working directory, used where it lies as well; the stage fails when there is none, and
  when the working directory is unknown.
\<close>

theorem fallback_locator_by_workflow:
  "(cliCommand h (world s) ''doc-to-text'' (text_extract_args doc out ocr tmpl ct vb)
        (text_extract_options ocr) = (res, w1)
      \<and> cmd_error res = None \<and> \<not> fs_exists h w1 out
    \<longrightarrow>
      (fs_cwd h w1 = Inr cwd \<and> fs_find h w1 cwd ''text.txt'' = Inr (src # others)
         \<and> fs_read h w1 src = Inr content \<and> fs_write h w1 out content = (None, w2)
       \<longrightarrow> world (snd (extractTextFromDocument h s doc out ocr tmpl ct vb)) = fs_rm h w2 src
           \<and> fst (extractTextFromDocument h s doc out ocr tmpl ct vb)
             = (case fs_read h (fs_rm h w2 src) out of
                  Inr text \<Rightarrow> \<not> is_blank text | Inl e \<Rightarrow> False))
      \<and> (fs_cwd h w1 = Inr cwd \<and> fs_find h w1 cwd ''text.txt'' = Inr (src # others)
         \<and> fs_read h w1 src = Inl readError
       \<longrightarrow> \<not> fst (extractTextFromDocument h s doc out ocr tmpl ct vb)
           \<and> world (snd (extractTextFromDocument h s doc out ocr tmpl ct vb)) = w1)
      \<and> (fs_cwd h w1 = Inr cwd \<and> fs_find h w1 cwd ''text.txt'' = Inr (src # others)
         \<and> fs_read h w1 src = Inr content \<and> fs_write h w1 out content = (Some writeError, w2)
       \<longrightarrow> \<not> fst (extractTextFromDocument h s doc out ocr tmpl ct vb)
           \<and> world (snd (extractTextFromDocument h s doc out ocr tmpl ct vb)) = w2)
      \<and> (fs_cwd h w1 = Inr cwd
         \<and> (\<forall>found rest. fs_find h w1 cwd ''text.txt'' \<noteq> Inr (found # rest))
       \<longrightarrow> \<not> fst (extractTextFromDocument h s doc out ocr tmpl ct vb)
           \<and> world (snd (extractTextFromDocument h s doc out ocr tmpl ct vb)) = w1)
      \<and> (fs_cwd h w1 = Inl cwdError
       \<longrightarrow> \<not> fst (extractTextFromDocument h s doc out ocr tmpl ct vb)
           \<and> world (snd (extractTextFromDocument h s doc out ocr tmpl ct vb)) = w1))
   \<and> (cliCommand h (world s) ''doc-to-text'' (receipt_extract_args doc tmp vb)
        \<lparr>timeout = 600, interactive = False\<rparr> = (res', w1')
      \<and> cmd_error res' = None \<and> \<not> fs_exists h w1' tmp
    \<longrightarrow>
      world (snd (run_receipt_extraction h s doc vb hashDir tempDir tmp)) = w1'
      \<and> (fs_cwd h w1' = Inl cwdError'
       \<longrightarrow> fst (run_receipt_extraction h s doc vb hashDir tempDir tmp) = None)
      \<and> (fs_cwd h w1' = Inr cwd' \<and> hashDir \<noteq> tempDir \<and> fs_exists h w1' hashDir
          \<and> fs_readdir h w1' hashDir = Inr (before @ f # after)
          \<and> (\<forall>g \<in> set before. \<not> (ends_with ''.txt'' (fi_name g) \<and> \<not> fi_is_dir g))
          \<and> ends_with ''.txt'' (fi_name f) \<and> \<not> fi_is_dir f \<and> fs_exists h w1' (fi_path f)
       \<longrightarrow> fst (run_receipt_extraction h s doc vb hashDir tempDir tmp) = Some (fi_path f))
      \<and> (fs_cwd h w1' = Inr cwd'
          \<and> (hashDir = tempDir \<or> \<not> fs_exists h w1' hashDir
              \<or> (\<exists>e. fs_readdir h w1' hashDir = Inl e)
              \<or> (\<exists>files. fs_readdir h w1' hashDir = Inr files
                    \<and> (\<forall>g \<in> set files. \<not> (ends_with ''.txt'' (fi_name g) \<and> \<not> fi_is_dir g)))
              \<or> (\<exists>before f after. fs_readdir h w1' hashDir = Inr (before @ f # after)
                    \<and> (\<forall>g \<in> set before. \<not> (ends_with ''.txt'' (fi_name g) \<and> \<not> fi_is_dir g))
                    \<and> ends_with ''.txt'' (fi_name f) \<and> \<not> fi_is_dir f
                    \<and> \<not> fs_exists h w1' (fi_path f)))
       \<longrightarrow> (fs_find h w1' cwd' ''text.txt'' = Inr (src' # others')
              \<longrightarrow> fst (run_receipt_extraction h s doc vb hashDir tempDir tmp) = Some src')
           \<and> ((\<forall>found rest. fs_find h w1' cwd' ''text.txt'' \<noteq> Inr (found # rest))
              \<longrightarrow> fst (run_receipt_extraction h s doc vb hashDir tempDir tmp) = None)))
   \<and> (cliCommand h (world s) ''doc-to-text'' (text_extract_args doc ctmp ocr tmpl ct vb)
        (text_extract_options ocr) = (cres, cworld)
      \<and> cmd_error cres = None \<and> \<not> fs_exists h cworld ctmp
    \<longrightarrow>
      world (snd (run_contract_extraction h s doc ctmp ocr tmpl ct vb)) = cworld
      \<and> (fs_cwd h cworld = Inl ccwdError
       \<longrightarrow> fst (run_contract_extraction h s doc ctmp ocr tmpl ct vb) = None)
      \<and> (fs_cwd h cworld = Inr ccwd \<and> fs_find h cworld ccwd ''text.txt'' = Inr (csrc # cothers)
       \<longrightarrow> fst (run_contract_extraction h s doc ctmp ocr tmpl ct vb) = Some csrc)
      \<and> (fs_cwd h cworld = Inr ccwd
          \<and> (\<forall>found rest. fs_find h cworld ccwd ''text.txt'' \<noteq> Inr (found # rest))
       \<longrightarrow> fst (run_contract_extraction h s doc ctmp ocr tmpl ct vb) = None))"
proof -
  let ?E = "extractTextFromDocument h s doc out ocr tmpl ct vb"
  let ?R = "run_receipt_extraction h s doc vb hashDir tempDir tmp"
  have textpart:
    "(fs_cwd h w1 = Inr cwd \<and> fs_find h w1 cwd ''text.txt'' = Inr (src # others)
         \<and> fs_read h w1 src = Inr content \<and> fs_write h w1 out content = (None, w2)
       \<longrightarrow> world (snd ?E) = fs_rm h w2 src
           \<and> fst ?E = (case fs_read h (fs_rm h w2 src) out of
                  Inr text \<Rightarrow> \<not> is_blank text | Inl e \<Rightarrow> False))
      \<and> (fs_cwd h w1 = Inr cwd \<and> fs_find h w1 cwd ''text.txt'' = Inr (src # others)
         \<and> fs_read h w1 src = Inl readError
       \<longrightarrow> \<not> fst ?E \<and> world (snd ?E) = w1)
      \<and> (fs_cwd h w1 = Inr cwd \<and> fs_find h w1 cwd ''text.txt'' = Inr (src # others)
         \<and> fs_read h w1 src = Inr content \<and> fs_write h w1 out content = (Some writeError, w2)
       \<longrightarrow> \<not> fst ?E \<and> world (snd ?E) = w2)
      \<and> (fs_cwd h w1 = Inr cwd
         \<and> (\<forall>found rest. fs_find h w1 cwd ''text.txt'' \<noteq> Inr (found # rest))
       \<longrightarrow> \<not> fst ?E \<and> world (snd ?E) = w1)
      \<and> (fs_cwd h w1 = Inl cwdError \<longrightarrow> \<not> fst ?E \<and> world (snd ?E) = w1)"
    if run: "cliCommand h (world s) ''doc-to-text'' (text_extract_args doc out ocr tmpl ct vb)
          (text_extract_options ocr) = (res, w1)"
      "cmd_error res = None" "\<not> fs_exists h w1 out"
  proof -
    have E: "?E = relocate_text_output h (s\<lparr>world := w1\<rparr>) out"
      using run by (simp add: extractTextFromDocument_def Let_def)
    have copied: "world (snd ?E) = fs_rm h w2 src
           \<and> fst ?E = (case fs_read h (fs_rm h w2 src) out of
                  Inr text \<Rightarrow> \<not> is_blank text | Inl e \<Rightarrow> False)"
      if "fs_cwd h w1 = Inr cwd" "fs_find h w1 cwd ''text.txt'' = Inr (src # others)"
        "fs_read h w1 src = Inr content" "fs_write h w1 out content = (None, w2)"
      unfolding E using that
      by (simp add: relocate_text_output_def Let_def verify_text_output_world
          verify_text_output_result)
    have unread: "\<not> fst ?E \<and> world (snd ?E) = w1"
      if "fs_cwd h w1 = Inr cwd" "fs_find h w1 cwd ''text.txt'' = Inr (src # others)"
        "fs_read h w1 src = Inl readError"
      unfolding E using that by (simp add: relocate_text_output_def Let_def)
    have unwritten: "\<not> fst ?E \<and> world (snd ?E) = w2"
      if "fs_cwd h w1 = Inr cwd" "fs_find h w1 cwd ''text.txt'' = Inr (src # others)"
        "fs_read h w1 src = Inr content" "fs_write h w1 out content = (Some writeError, w2)"
      unfolding E using that by (simp add: relocate_text_output_def Let_def)
    have missing: "\<not> fst ?E \<and> world (snd ?E) = w1"
      if "fs_cwd h w1 = Inr cwd"
        "\<forall>found rest. fs_find h w1 cwd ''text.txt'' \<noteq> Inr (found # rest)"
      unfolding E using that
      by (simp add: relocate_text_output_def Let_def split: sum.splits list.splits)
    have nocwd: "\<not> fst ?E \<and> world (snd ?E) = w1" if "fs_cwd h w1 = Inl cwdError"
      unfolding E using that by (simp add: relocate_text_output_def Let_def)
    show ?thesis using copied unread unwritten missing nocwd by blast
  qed
  have receipt:
    "world (snd ?R) = w1'
      \<and> (fs_cwd h w1' = Inl cwdError' \<longrightarrow> fst ?R = None)
      \<and> (fs_cwd h w1' = Inr cwd' \<and> hashDir \<noteq> tempDir \<and> fs_exists h w1' hashDir
          \<and> fs_readdir h w1' hashDir = Inr (before @ f # after)
          \<and> (\<forall>g \<in> set before. \<not> (ends_with ''.txt'' (fi_name g) \<and> \<not> fi_is_dir g))
          \<and> ends_with ''.txt'' (fi_name f) \<and> \<not> fi_is_dir f \<and> fs_exists h w1' (fi_path f)
       \<longrightarrow> fst ?R = Some (fi_path f))
      \<and> (fs_cwd h w1' = Inr cwd'
          \<and> (hashDir = tempDir \<or> \<not> fs_exists h w1' hashDir
              \<or> (\<exists>e. fs_readdir h w1' hashDir = Inl e)
              \<or> (\<exists>files. fs_readdir h w1' hashDir = Inr files
                    \<and> (\<forall>g \<in> set files. \<not> (ends_with ''.txt'' (fi_name g) \<and> \<not> fi_is_dir g)))
              \<or> (\<exists>before f after. fs_readdir h w1' hashDir = Inr (before @ f # after)
                    \<and> (\<forall>g \<in> set before. \<not> (ends_with ''.txt'' (fi_name g) \<and> \<not> fi_is_dir g))
                    \<and> ends_with ''.txt'' (fi_name f) \<and> \<not> fi_is_dir f
                    \<and> \<not> fs_exists h w1' (fi_path f)))
       \<longrightarrow> (fs_find h w1' cwd' ''text.txt'' = Inr (src' # others') \<longrightarrow> fst ?R = Some src')
           \<and> ((\<forall>found rest. fs_find h w1' cwd' ''text.txt'' \<noteq> Inr (found # rest))
              \<longrightarrow> fst ?R = None))"
    if run: "cliCommand h (world s) ''doc-to-text'' (receipt_extract_args doc tmp vb)
          \<lparr>timeout = 600, interactive = False\<rparr> = (res', w1')"
      "cmd_error res' = None" "\<not> fs_exists h w1' tmp"
  proof -
    have R: "?R = locate_receipt_text h (s\<lparr>world := w1'\<rparr>) hashDir tempDir tmp"
      using run by (simp add: run_receipt_extraction_def Let_def)
    have w: "world (snd ?R) = w1'"
      unfolding R by (simp add: locate_receipt_text_world)
    have nocwd: "fst ?R = None" if "fs_cwd h w1' = Inl cwdError'"
      unfolding R using that by (simp add: locate_receipt_text_def Let_def)
    have hit: "fst ?R = Some (fi_path f)"
      if "fs_cwd h w1' = Inr cwd'" "hashDir \<noteq> tempDir" "fs_exists h w1' hashDir"
        "fs_readdir h w1' hashDir = Inr (before @ f # after)"
        "\<forall>g \<in> set before. \<not> (ends_with ''.txt'' (fi_name g) \<and> \<not> fi_is_dir g)"
        "ends_with ''.txt'' (fi_name f) \<and> \<not> fi_is_dir f" "fs_exists h w1' (fi_path f)"
      unfolding R using that staged_text_hit [OF that(2,3,4,5,6), of tmp]
      by (simp add: locate_receipt_text_def Let_def)
    have miss: "(fs_find h w1' cwd' ''text.txt'' = Inr (src' # others') \<longrightarrow> fst ?R = Some src')
           \<and> ((\<forall>found rest. fs_find h w1' cwd' ''text.txt'' \<noteq> Inr (found # rest))
              \<longrightarrow> fst ?R = None)"
      if c: "fs_cwd h w1' = Inr cwd'"
        and m: "hashDir = tempDir \<or> \<not> fs_exists h w1' hashDir
              \<or> (\<exists>e. fs_readdir h w1' hashDir = Inl e)
              \<or> (\<exists>files. fs_readdir h w1' hashDir = Inr files
                    \<and> (\<forall>g \<in> set files. \<not> (ends_with ''.txt'' (fi_name g) \<and> \<not> fi_is_dir g)))
              \<or> (\<exists>before f after. fs_readdir h w1' hashDir = Inr (before @ f # after)
                    \<and> (\<forall>g \<in> set before. \<not> (ends_with ''.txt'' (fi_name g) \<and> \<not> fi_is_dir g))
                    \<and> ends_with ''.txt'' (fi_name f) \<and> \<not> fi_is_dir f
                    \<and> \<not> fs_exists h w1' (fi_path f))"
    proof -
      have "\<not> fs_exists h w1' (staged_text h w1' hashDir tempDir tmp)"
        using staged_text_miss [OF run(3) m] .
      then show ?thesis unfolding R using c
        by (simp add: locate_receipt_text_def Let_def split: sum.splits list.splits)
    qed
    have c2: "fs_cwd h w1' = Inl cwdError' \<longrightarrow> fst ?R = None"
      using nocwd by blast
    have c3: "fs_cwd h w1' = Inr cwd' \<and> hashDir \<noteq> tempDir \<and> fs_exists h w1' hashDir
          \<and> fs_readdir h w1' hashDir = Inr (before @ f # after)
          \<and> (\<forall>g \<in> set before. \<not> (ends_with ''.txt'' (fi_name g) \<and> \<not> fi_is_dir g))
          \<and> ends_with ''.txt'' (fi_name f) \<and> \<not> fi_is_dir f \<and> fs_exists h w1' (fi_path f)
       \<longrightarrow> fst ?R = Some (fi_path f)"
      using hit by blast
    have c4: "fs_cwd h w1' = Inr cwd'
          \<and> (hashDir = tempDir \<or> \<not> fs_exists h w1' hashDir
              \<or> (\<exists>e. fs_readdir h w1' hashDir = Inl e)
              \<or> (\<exists>files. fs_readdir h w1' hashDir = Inr files
                    \<and> (\<forall>g \<in> set files. \<not> (ends_with ''.txt'' (fi_name g) \<and> \<not> fi_is_dir g)))
              \<or> (\<exists>before f after. fs_readdir h w1' hashDir = Inr (before @ f # after)
                    \<and> (\<forall>g \<in> set before. \<not> (ends_with ''.txt'' (fi_name g) \<and> \<not> fi_is_dir g))
                    \<and> ends_with ''.txt'' (fi_name f) \<and> \<not> fi_is_dir f
                    \<and> \<not> fs_exists h w1' (fi_path f)))
       \<longrightarrow> (fs_find h w1' cwd' ''text.txt'' = Inr (src' # others') \<longrightarrow> fst ?R = Some src')
           \<and> ((\<forall>found rest. fs_find h w1' cwd' ''text.txt'' \<noteq> Inr (found # rest))
              \<longrightarrow> fst ?R = None)"
    proof (intro impI, elim conjE)
      assume c: "fs_cwd h w1' = Inr cwd'"
        and m: "hashDir = tempDir \<or> \<not> fs_exists h w1' hashDir
              \<or> (\<exists>e. fs_readdir h w1' hashDir = Inl e)
              \<or> (\<exists>files. fs_readdir h w1' hashDir = Inr files
                    \<and> (\<forall>g \<in> set files. \<not> (ends_with ''.txt'' (fi_name g) \<and> \<not> fi_is_dir g)))
              \<or> (\<exists>before f after. fs_readdir h w1' hashDir = Inr (before @ f # after)
                    \<and> (\<forall>g \<in> set before. \<not> (ends_with ''.txt'' (fi_name g) \<and> \<not> fi_is_dir g))
                    \<and> ends_with ''.txt'' (fi_name f) \<and> \<not> fi_is_dir f
                    \<and> \<not> fs_exists h w1' (fi_path f))"
      show "(fs_find h w1' cwd' ''text.txt'' = Inr (src' # others') \<longrightarrow> fst ?R = Some src')
           \<and> ((\<forall>found rest. fs_find h w1' cwd' ''text.txt'' \<noteq> Inr (found # rest))
              \<longrightarrow> fst ?R = None)"
        using miss [OF c m] .
    qed
    show ?thesis by (rule conjI [OF w conjI [OF c2 conjI [OF c3 c4]]])
  qed
  have t: "cliCommand h (world s) ''doc-to-text'' (text_extract_args doc out ocr tmpl ct vb)
        (text_extract_options ocr) = (res, w1)
      \<and> cmd_error res = None \<and> \<not> fs_exists h w1 out
    \<longrightarrow>
      (fs_cwd h w1 = Inr cwd \<and> fs_find h w1 cwd ''text.txt'' = Inr (src # others)
         \<and> fs_read h w1 src = Inr content \<and> fs_write h w1 out content = (None, w2)
       \<longrightarrow> world (snd ?E) = fs_rm h w2 src
           \<and> fst ?E = (case fs_read h (fs_rm h w2 src) out of
                  Inr text \<Rightarrow> \<not> is_blank text | Inl e \<Rightarrow> False))
      \<and> (fs_cwd h w1 = Inr cwd \<and> fs_find h w1 cwd ''text.txt'' = Inr (src # others)
         \<and> fs_read h w1 src = Inl readError
       \<longrightarrow> \<not> fst ?E \<and> world (snd ?E) = w1)
      \<and> (fs_cwd h w1 = Inr cwd \<and> fs_find h w1 cwd ''text.txt'' = Inr (src # others)
         \<and> fs_read h w1 src = Inr content \<and> fs_write h w1 out content = (Some writeError, w2)
       \<longrightarrow> \<not> fst ?E \<and> world (snd ?E) = w2)
      \<and> (fs_cwd h w1 = Inr cwd
         \<and> (\<forall>found rest. fs_find h w1 cwd ''text.txt'' \<noteq> Inr (found # rest))
       \<longrightarrow> \<not> fst ?E \<and> world (snd ?E) = w1)
      \<and> (fs_cwd h w1 = Inl cwdError \<longrightarrow> \<not> fst ?E \<and> world (snd ?E) = w1)"
    using textpart by blast
  have r: "cliCommand h (world s) ''doc-to-text'' (receipt_extract_args doc tmp vb)
        \<lparr>timeout = 600, interactive = False\<rparr> = (res', w1')
      \<and> cmd_error res' = None \<and> \<not> fs_exists h w1' tmp
    \<longrightarrow>
      world (snd ?R) = w1'
      \<and> (fs_cwd h w1' = Inl cwdError' \<longrightarrow> fst ?R = None)
      \<and> (fs_cwd h w1' = Inr cwd' \<and> hashDir \<noteq> tempDir \<and> fs_exists h w1' hashDir
          \<and> fs_readdir h w1' hashDir = Inr (before @ f # after)
          \<and> (\<forall>g \<in> set before. \<not> (ends_with ''.txt'' (fi_name g) \<and> \<not> fi_is_dir g))
          \<and> ends_with ''.txt'' (fi_name f) \<and> \<not> fi_is_dir f \<and> fs_exists h w1' (fi_path f)
       \<longrightarrow> fst ?R = Some (fi_path f))
      \<and> (fs_cwd h w1' = Inr cwd'
          \<and> (hashDir = tempDir \<or> \<not> fs_exists h w1' hashDir
              \<or> (\<exists>e. fs_readdir h w1' hashDir = Inl e)
              \<or> (\<exists>files. fs_readdir h w1' hashDir = Inr files
                    \<and> (\<forall>g \<in> set files. \<not> (ends_with ''.txt'' (fi_name g) \<and> \<not> fi_is_dir g)))
              \<or> (\<exists>before f after. fs_readdir h w1' hashDir = Inr (before @ f # after)
                    \<and> (\<forall>g \<in> set before. \<not> (ends_with ''.txt'' (fi_name g) \<and> \<not> fi_is_dir g))
                    \<and> ends_with ''.txt'' (fi_name f) \<and> \<not> fi_is_dir f
                    \<and> \<not> fs_exists h w1' (fi_path f)))
       \<longrightarrow> (fs_find h w1' cwd' ''text.txt'' = Inr (src' # others') \<longrightarrow> fst ?R = Some src')
           \<and> ((\<forall>found rest. fs_find h w1' cwd' ''text.txt'' \<noteq> Inr (found # rest))
              \<longrightarrow> fst ?R = None))"
  proof (intro impI, elim conjE)
    assume "cliCommand h (world s) ''doc-to-text'' (receipt_extract_args doc tmp vb)
        \<lparr>timeout = 600, interactive = False\<rparr> = (res', w1')"
      "cmd_error res' = None" "\<not> fs_exists h w1' tmp"
    then show "world (snd ?R) = w1'
      \<and> (fs_cwd h w1' = Inl cwdError' \<longrightarrow> fst ?R = None)
      \<and> (fs_cwd h w1' = Inr cwd' \<and> hashDir \<noteq> tempDir \<and> fs_exists h w1' hashDir
          \<and> fs_readdir h w1' hashDir = Inr (before @ f # after)
          \<and> (\<forall>g \<in> set before. \<not> (ends_with ''.txt'' (fi_name g) \<and> \<not> fi_is_dir g))
          \<and> ends_with ''.txt'' (fi_name f) \<and> \<not> fi_is_dir f \<and> fs_exists h w1' (fi_path f)
       \<longrightarrow> fst ?R = Some (fi_path f))
      \<and> (fs_cwd h w1' = Inr cwd'
          \<and> (hashDir = tempDir \<or> \<not> fs_exists h w1' hashDir
              \<or> (\<exists>e. fs_readdir h w1' hashDir = Inl e)
              \<or> (\<exists>files. fs_readdir h w1' hashDir = Inr files
                    \<and> (\<forall>g \<in> set files. \<not> (ends_with ''.txt'' (fi_name g) \<and> \<not> fi_is_dir g)))
              \<or> (\<exists>before f after. fs_readdir h w1' hashDir = Inr (before @ f # after)
                    \<and> (\<forall>g \<in> set before. \<not> (ends_with ''.txt'' (fi_name g) \<and> \<not> fi_is_dir g))
                    \<and> ends_with ''.txt'' (fi_name f) \<and> \<not> fi_is_dir f
                    \<and> \<not> fs_exists h w1' (fi_path f)))
       \<longrightarrow> (fs_find h w1' cwd' ''text.txt'' = Inr (src' # others') \<longrightarrow> fst ?R = Some src')
           \<and> ((\<forall>found rest. fs_find h w1' cwd' ''text.txt'' \<noteq> Inr (found # rest))
              \<longrightarrow> fst ?R = None))"
      by (rule receipt)
  qed
  have c: "cliCommand h (world s) ''doc-to-text'' (text_extract_args doc ctmp ocr tmpl ct vb)
        (text_extract_options ocr) = (cres, cworld)
      \<and> cmd_error cres = None \<and> \<not> fs_exists h cworld ctmp
    \<longrightarrow>
      world (snd (run_contract_extraction h s doc ctmp ocr tmpl ct vb)) = cworld
      \<and> (fs_cwd h cworld = Inl ccwdError
       \<longrightarrow> fst (run_contract_extraction h s doc ctmp ocr tmpl ct vb) = None)
      \<and> (fs_cwd h cworld = Inr ccwd \<and> fs_find h cworld ccwd ''text.txt'' = Inr (csrc # cothers)
       \<longrightarrow> fst (run_contract_extraction h s doc ctmp ocr tmpl ct vb) = Some csrc)
      \<and> (fs_cwd h cworld = Inr ccwd
          \<and> (\<forall>found rest. fs_find h cworld ccwd ''text.txt'' \<noteq> Inr (found # rest))
       \<longrightarrow> fst (run_contract_extraction h s doc ctmp ocr tmpl ct vb) = None)"
  proof (intro impI, elim conjE)
    assume run: "cliCommand h (world s) ''doc-to-text''
                   (text_extract_args doc ctmp ocr tmpl ct vb) (text_extract_options ocr)
                   = (cres, cworld)"
      "cmd_error cres = None" "\<not> fs_exists h cworld ctmp"
    let ?C = "run_contract_extraction h s doc ctmp ocr tmpl ct vb"
    have C: "?C = locate_contract_text h (s\<lparr>world := cworld\<rparr>) ctmp"
      using run by (simp add: run_contract_extraction_def Let_def)
    have c1: "world (snd ?C) = cworld"
      unfolding C
      by (simp add: locate_contract_text_def Let_def split: sum.splits list.splits)
    have c2: "fs_cwd h cworld = Inl ccwdError \<longrightarrow> fst ?C = None"
      unfolding C by (simp add: locate_contract_text_def Let_def)
    have c3: "fs_cwd h cworld = Inr ccwd \<and> fs_find h cworld ccwd ''text.txt'' = Inr (csrc # cothers)
                \<longrightarrow> fst ?C = Some csrc"
      unfolding C by (simp add: locate_contract_text_def Let_def)
    have c4: "fs_cwd h cworld = Inr ccwd
          \<and> (\<forall>found rest. fs_find h cworld ccwd ''text.txt'' \<noteq> Inr (found # rest))
                \<longrightarrow> fst ?C = None"
      unfolding C
      by (simp add: locate_contract_text_def Let_def split: sum.splits list.splits)
    show "world (snd ?C) = cworld
      \<and> (fs_cwd h cworld = Inl ccwdError \<longrightarrow> fst ?C = None)
      \<and> (fs_cwd h cworld = Inr ccwd \<and> fs_find h cworld ccwd ''text.txt'' = Inr (csrc # cothers)
       \<longrightarrow> fst ?C = Some csrc)
      \<and> (fs_cwd h cworld = Inr ccwd
          \<and> (\<forall>found rest. fs_find h cworld ccwd ''text.txt'' \<noteq> Inr (found # rest))
       \<longrightarrow> fst ?C = None)"
      by (rule conjI [OF c1 conjI [OF c2 conjI [OF c3 c4]]])
  qed
  show ?thesis by (rule conjI [OF t conjI [OF r c]])
qed

theorem fallback_locator_by_workflow_witness:
  "extractTextFromDocument (sim_host [] example_parses) (sim_start w_stray_text) ''/in/r.png''
      ''/out/r.txt'' ''surya_ocr'' [] [] False
     = (True,
        \<lparr>world = w_stray_text
           \<lparr>sim_files := [(''/in/r.png'', ''image''), (''/out/r.txt'', ''TOTAL 12.50'')],
            sim_script := [tool_ok ''NEW'' []]\<rparr>,
         errors = [[''Text file was not created at expected location:'', ''/out/r.txt'']]\<rparr>)
   \<and> fst (extractTextFromDocument (sim_host [] example_parses) (sim_start w_stray_text_sealed)
             ''/in/r.png'' ''/out/r.txt'' ''surya_ocr'' [] [] False) = False
   \<and> world (snd (extractTextFromDocument (sim_host [] example_parses)
                    (sim_start w_stray_text_sealed) ''/in/r.png'' ''/out/r.txt'' ''surya_ocr''
                    [] [] False))
       = w_stray_text_sealed
           \<lparr>sim_files := [(''/in/r.png'', ''image''), (''/work/abc/text.txt'', ''TOTAL 12.50'')],
            sim_script := [tool_ok ''NEW'' []]\<rparr>
   \<and> fst (extractTextFromDocument (sim_host [] example_parses) (sim_start w_text_directory)
             ''/in/r.png'' ''/out/r.txt'' ''surya_ocr'' [] [] False) = False
   \<and> fst (run_receipt_extraction (sim_host [] example_parses) (sim_start w_staged_text)
             ''/in/r.png'' False ''/out/h1'' ''/out'' ''/out/h1/r.extracted.txt'')
       = Some ''/out/h1/text.txt''
   \<and> world (snd (run_receipt_extraction (sim_host [] example_parses) (sim_start w_stray_text)
                    ''/in/r.png'' False ''/out/h1'' ''/out'' ''/out/h1/r.extracted.txt''))
       = w_stray_text
           \<lparr>sim_files := [(''/in/r.png'', ''image''), (''/work/abc/text.txt'', ''TOTAL 12.50'')],
            sim_script := [tool_ok ''NEW'' []]\<rparr>
   \<and> fst (run_receipt_extraction (sim_host [] example_parses) (sim_start w_stray_text)
             ''/in/r.png'' False ''/out/h1'' ''/out'' ''/out/h1/r.extracted.txt'')
       = Some ''/work/abc/text.txt''
   \<and> fst (run_contract_extraction (sim_host [] example_parses) (sim_start w_stray_text)
             ''/in/r.png'' ''/out/r.extracted.txt'' ''surya_ocr'' [] [] False)
       = Some ''/work/abc/text.txt''
   \<and> world (snd (run_contract_extraction (sim_host [] example_parses) (sim_start w_stray_text)
                    ''/in/r.png'' ''/out/r.extracted.txt'' ''surya_ocr'' [] [] False))
       = w_stray_text
           \<lparr>sim_files := [(''/in/r.png'', ''image''), (''/work/abc/text.txt'', ''TOTAL 12.50'')],
            sim_script := [tool_ok ''NEW'' []]\<rparr>
   \<and> fst (extractTextFromDocument (sim_host [] example_parses) (sim_start w_no_text)
             ''/in/r.png'' ''/out/r.txt'' ''surya_ocr'' [] [] False) = False
   \<and> fst (run_receipt_extraction (sim_host [] example_parses) (sim_start w_no_text)
             ''/in/r.png'' False ''/out/h1'' ''/out'' ''/out/h1/r.extracted.txt'') = None
   \<and> fst (run_contract_extraction (sim_host [] example_parses) (sim_start w_no_text)
             ''/in/r.png'' ''/out/r.extracted.txt'' ''surya_ocr'' [] [] False) = None"
proof -
  let ?h = "sim_host [] example_parses"
  let ?ok = "\<lparr>stdout = [], stderr = [], cmd_error = None\<rparr>"
  have ok: "cmd_error ?ok = None"
    by simp
  let ?targs = "text_extract_args ''/in/r.png'' ''/out/r.txt'' ''surya_ocr'' [] [] False"
  let ?rargs = "receipt_extract_args ''/in/r.png'' ''/out/h1/r.extracted.txt'' False"
  let ?ropts = "\<lparr>timeout = 600, interactive = False\<rparr>"

  txt \<open>The text workflow where the declared output cannot be written.\<close>
  let ?s1 = "sim_start w_stray_text_sealed"
  let ?w1 = "w_stray_text_sealed
           \<lparr>sim_files := [(''/in/r.png'', ''image''), (''/work/abc/text.txt'', ''TOTAL 12.50'')],
            sim_script := [tool_ok ''NEW'' []]\<rparr>"
  have run1: "cliCommand ?h (world ?s1) ''doc-to-text'' ?targs (text_extract_options ''surya_ocr'')
                = (?ok, ?w1)"
    by code_simp
  have absent1: "\<not> fs_exists ?h ?w1 ''/out/r.txt''"
    by code_simp
  have cwd1: "fs_cwd ?h ?w1 = Inr ''/work''"
    by code_simp
  have found1: "fs_find ?h ?w1 ''/work'' ''text.txt'' = Inr (''/work/abc/text.txt'' # [])"
    by code_simp
  have read1: "fs_read ?h ?w1 ''/work/abc/text.txt'' = Inr ''TOTAL 12.50''"
    by code_simp
  have write1: "fs_write ?h ?w1 ''/out/r.txt'' ''TOTAL 12.50'' = (Some ''permission denied'', ?w1)"
    by code_simp
  have sealed: "\<not> fst (extractTextFromDocument ?h ?s1 ''/in/r.png'' ''/out/r.txt'' ''surya_ocr''
                         [] [] False)
      \<and> world (snd (extractTextFromDocument ?h ?s1 ''/in/r.png'' ''/out/r.txt'' ''surya_ocr''
                        [] [] False)) = ?w1"
    using fallback_locator_by_workflow
            [where h = "?h" and s = "?s1" and doc = "''/in/r.png''" and out = "''/out/r.txt''"
               and ocr = "''surya_ocr''" and tmpl = "[]" and ct = "[]" and vb = False
               and res = "?ok" and ?w1.0 = "?w1" and cwd = "''/work''"
               and src = "''/work/abc/text.txt''" and others = "[]"
               and content = "''TOTAL 12.50''" and writeError = "''permission denied''"
               and ?w2.0 = "?w1",
             THEN conjunct1]
          run1 ok absent1 cwd1 found1 read1 write1
    by blast

  txt \<open>The receipt workflow where the staging directory holds a text file.\<close>
  let ?s2 = "sim_start w_staged_text"
  let ?w2 = "w_staged_text
           \<lparr>sim_files := [(''/in/r.png'', ''image''), (''/out/h1/text.txt'', ''TOTAL 12.50''),
                          (''/work/abc/text.txt'', ''OTHER'')],
            sim_script := [tool_ok ''NEW'' []]\<rparr>"
  let ?f = "\<lparr>fi_name = ''text.txt'', fi_path = ''/out/h1/text.txt'', fi_is_dir = False\<rparr>"
  have run2: "cliCommand ?h (world ?s2) ''doc-to-text'' ?rargs ?ropts = (?ok, ?w2)"
    by code_simp
  have absent2: "\<not> fs_exists ?h ?w2 ''/out/h1/r.extracted.txt''"
    by code_simp
  have cwd2: "fs_cwd ?h ?w2 = Inr ''/work''"
    by code_simp
  have dirs2: "''/out/h1'' \<noteq> ''/out''" "fs_exists ?h ?w2 ''/out/h1''"
    by code_simp+
  have list2: "fs_readdir ?h ?w2 ''/out/h1'' = Inr ([] @ ?f # [])"
    by code_simp
  have first2: "\<forall>g \<in> set ([] :: file_info list).
                  \<not> (ends_with ''.txt'' (fi_name g) \<and> \<not> fi_is_dir g)"
    by simp
  have match2: "ends_with ''.txt'' (fi_name ?f)" "\<not> fi_is_dir ?f"
    by code_simp+
  have there2: "fs_exists ?h ?w2 (fi_path ?f)"
    by code_simp
  have staged: "fst (run_receipt_extraction ?h ?s2 ''/in/r.png'' False ''/out/h1'' ''/out''
                       ''/out/h1/r.extracted.txt'') = Some (fi_path ?f)"
    using fallback_locator_by_workflow
            [where h = "?h" and s = "?s2" and doc = "''/in/r.png''" and vb = False
               and tmp = "''/out/h1/r.extracted.txt''" and hashDir = "''/out/h1''"
               and tempDir = "''/out''" and res' = "?ok" and w1' = "?w2" and cwd' = "''/work''"
               and before = "[]" and f = "?f" and after = "[]",
             THEN conjunct2, THEN conjunct1]
          run2 ok absent2 cwd2 dirs2 list2 first2 match2 there2
    by blast

  txt \<open>The receipt workflow where only the working directory holds a text file.\<close>
  let ?s3 = "sim_start w_stray_text"
  let ?w3 = "w_stray_text
           \<lparr>sim_files := [(''/in/r.png'', ''image''), (''/work/abc/text.txt'', ''TOTAL 12.50'')],
            sim_script := [tool_ok ''NEW'' []]\<rparr>"
  have run3: "cliCommand ?h (world ?s3) ''doc-to-text'' ?rargs ?ropts = (?ok, ?w3)"
    by code_simp
  have absent3: "\<not> fs_exists ?h ?w3 ''/out/h1/r.extracted.txt''"
    by code_simp
  have cwd3: "fs_cwd ?h ?w3 = Inr ''/work''"
    by code_simp
  have nodir3: "\<not> fs_exists ?h ?w3 ''/out/h1''"
    by code_simp
  have found3: "fs_find ?h ?w3 ''/work'' ''text.txt'' = Inr (''/work/abc/text.txt'' # [])"
    by code_simp
  have stray: "world (snd (run_receipt_extraction ?h ?s3 ''/in/r.png'' False ''/out/h1'' ''/out''
                    ''/out/h1/r.extracted.txt'')) = ?w3"
    "fst (run_receipt_extraction ?h ?s3 ''/in/r.png'' False ''/out/h1'' ''/out''
                    ''/out/h1/r.extracted.txt'') = Some ''/work/abc/text.txt''"
    using fallback_locator_by_workflow
            [where h = "?h" and s = "?s3" and doc = "''/in/r.png''" and vb = False
               and tmp = "''/out/h1/r.extracted.txt''" and hashDir = "''/out/h1''"
               and tempDir = "''/out''" and res' = "?ok" and w1' = "?w3" and cwd' = "''/work''"
               and src' = "''/work/abc/text.txt''" and others' = "[]",
             THEN conjunct2, THEN conjunct1]
          run3 ok absent3 cwd3 nodir3 found3
    by blast+

  txt \<open>The text workflow where the stray text is copied and removed.\<close>
  let ?w4 = "w_stray_text
           \<lparr>sim_files := [(''/in/r.png'', ''image''), (''/work/abc/text.txt'', ''TOTAL 12.50''),
                          (''/out/r.txt'', ''TOTAL 12.50'')],
            sim_script := [tool_ok ''NEW'' []]\<rparr>"
  have run4: "cliCommand ?h (world ?s3) ''doc-to-text'' ?targs (text_extract_options ''surya_ocr'')
                = (?ok, ?w3)"
    by code_simp
  have absent4: "\<not> fs_exists ?h ?w3 ''/out/r.txt''"
    by code_simp
  have read4: "fs_read ?h ?w3 ''/work/abc/text.txt'' = Inr ''TOTAL 12.50''"
    by code_simp
  have write4: "fs_write ?h ?w3 ''/out/r.txt'' ''TOTAL 12.50'' = (None, ?w4)"
    by code_simp
  have moved: "world (snd (extractTextFromDocument ?h ?s3 ''/in/r.png'' ''/out/r.txt''
                             ''surya_ocr'' [] [] False))
                 = fs_rm ?h ?w4 ''/work/abc/text.txt''"
    using fallback_locator_by_workflow
            [where h = "?h" and s = "?s3" and doc = "''/in/r.png''" and out = "''/out/r.txt''"
               and ocr = "''surya_ocr''" and tmpl = "[]" and ct = "[]" and vb = False
               and res = "?ok" and ?w1.0 = "?w3" and cwd = "''/work''"
               and src = "''/work/abc/text.txt''" and others = "[]"
               and content = "''TOTAL 12.50''" and ?w2.0 = "?w4",
             THEN conjunct1]
          run4 ok absent4 cwd3 found3 read4 write4
    by blast
  have removed: "fs_rm ?h ?w4 ''/work/abc/text.txt''
                   = w_stray_text
                       \<lparr>sim_files := [(''/in/r.png'', ''image''), (''/out/r.txt'', ''TOTAL 12.50'')],
                        sim_script := [tool_ok ''NEW'' []]\<rparr>"
    by code_simp

  txt \<open>The text workflow where the only candidate cannot be read, and where there is none.\<close>
  let ?s5 = "sim_start w_text_directory"
  let ?w5 = "w_text_directory\<lparr>sim_script := []\<rparr>"
  have run5: "cliCommand ?h (world ?s5) ''doc-to-text'' ?targs (text_extract_options ''surya_ocr'')
                = (?ok, ?w5)"
    by code_simp
  have absent5: "\<not> fs_exists ?h ?w5 ''/out/r.txt''"
    by code_simp
  have cwd5: "fs_cwd ?h ?w5 = Inr ''/work''"
    by code_simp
  have found5: "fs_find ?h ?w5 ''/work'' ''text.txt'' = Inr (''/work/abc/text.txt'' # [])"
    by code_simp
  have read5: "fs_read ?h ?w5 ''/work/abc/text.txt'' = Inl ''no such file''"
    by code_simp
  have unread: "\<not> fst (extractTextFromDocument ?h ?s5 ''/in/r.png'' ''/out/r.txt'' ''surya_ocr''
                         [] [] False)"
    using fallback_locator_by_workflow
            [where h = "?h" and s = "?s5" and doc = "''/in/r.png''" and out = "''/out/r.txt''"
               and ocr = "''surya_ocr''" and tmpl = "[]" and ct = "[]" and vb = False
               and res = "?ok" and ?w1.0 = "?w5" and cwd = "''/work''"
               and src = "''/work/abc/text.txt''" and others = "[]"
               and readError = "''no such file''",
             THEN conjunct1]
          run5 ok absent5 cwd5 found5 read5
    by blast

  let ?s6 = "sim_start w_no_text"
  let ?w6 = "w_no_text\<lparr>sim_script := []\<rparr>"
  have run6: "cliCommand ?h (world ?s6) ''doc-to-text'' ?targs (text_extract_options ''surya_ocr'')
                = (?ok, ?w6)"
    by code_simp
  have run6': "cliCommand ?h (world ?s6) ''doc-to-text'' ?rargs ?ropts = (?ok, ?w6)"
    by code_simp
  have absent6: "\<not> fs_exists ?h ?w6 ''/out/r.txt''" "\<not> fs_exists ?h ?w6 ''/out/h1/r.extracted.txt''"
    "\<not> fs_exists ?h ?w6 ''/out/h1''"
    by code_simp+
  have cwd6: "fs_cwd ?h ?w6 = Inr ''/work''"
    by code_simp
  have found6: "fs_find ?h ?w6 ''/work'' ''text.txt'' = Inr []"
    by code_simp
  then have nothing6: "\<forall>found rest. fs_find ?h ?w6 ''/work'' ''text.txt'' \<noteq> Inr (found # rest)"
    by simp
  have none1: "\<not> fst (extractTextFromDocument ?h ?s6 ''/in/r.png'' ''/out/r.txt'' ''surya_ocr''
                         [] [] False)"
    using fallback_locator_by_workflow
            [where h = "?h" and s = "?s6" and doc = "''/in/r.png''" and out = "''/out/r.txt''"
               and ocr = "''surya_ocr''" and tmpl = "[]" and ct = "[]" and vb = False
               and res = "?ok" and ?w1.0 = "?w6" and cwd = "''/work''",
             THEN conjunct1]
          run6 ok absent6(1) cwd6 nothing6
    by blast
  have none2: "fst (run_receipt_extraction ?h ?s6 ''/in/r.png'' False ''/out/h1'' ''/out''
                      ''/out/h1/r.extracted.txt'') = None"
    using fallback_locator_by_workflow
            [where h = "?h" and s = "?s6" and doc = "''/in/r.png''" and vb = False
               and tmp = "''/out/h1/r.extracted.txt''" and hashDir = "''/out/h1''"
               and tempDir = "''/out''" and res' = "?ok" and w1' = "?w6" and cwd' = "''/work''",
             THEN conjunct2, THEN conjunct1]
          run6' ok absent6(2,3) cwd6 nothing6
    by blast

  txt \<open>The contract workflow, with the stray text and with none.\<close>
  let ?cargs = "text_extract_args ''/in/r.png'' ''/out/r.extracted.txt'' ''surya_ocr'' [] [] False"
  have run7: "cliCommand ?h (world ?s3) ''doc-to-text'' ?cargs (text_extract_options ''surya_ocr'')
                = (?ok, ?w3)"
    by code_simp
  have absent7: "\<not> fs_exists ?h ?w3 ''/out/r.extracted.txt''"
    by code_simp
  have contract: "world (snd (run_contract_extraction ?h ?s3 ''/in/r.png'' ''/out/r.extracted.txt''
                                ''surya_ocr'' [] [] False)) = ?w3"
    "fst (run_contract_extraction ?h ?s3 ''/in/r.png'' ''/out/r.extracted.txt''
            ''surya_ocr'' [] [] False) = Some ''/work/abc/text.txt''"
    using fallback_locator_by_workflow
            [where h = "?h" and s = "?s3" and doc = "''/in/r.png''"
               and ctmp = "''/out/r.extracted.txt''"
               and ocr = "''surya_ocr''" and tmpl = "[]" and ct = "[]" and vb = False
               and cres = "?ok" and cworld = "?w3" and ccwd = "''/work''"
               and csrc = "''/work/abc/text.txt''" and cothers = "[]",
             THEN conjunct2, THEN conjunct2]
          run7 ok absent7 cwd3 found3
    by blast+
  have run8: "cliCommand ?h (world ?s6) ''doc-to-text'' ?cargs (text_extract_options ''surya_ocr'')
                = (?ok, ?w6)"
    by code_simp
  have absent8: "\<not> fs_exists ?h ?w6 ''/out/r.extracted.txt''"
    by code_simp
  have none3: "fst (run_contract_extraction ?h ?s6 ''/in/r.png'' ''/out/r.extracted.txt''
                      ''surya_ocr'' [] [] False) = None"
    using fallback_locator_by_workflow
            [where h = "?h" and s = "?s6" and doc = "''/in/r.png''"
               and ctmp = "''/out/r.extracted.txt''"
               and ocr = "''surya_ocr''" and tmpl = "[]" and ct = "[]" and vb = False
               and cres = "?ok" and cworld = "?w6" and ccwd = "''/work''",
             THEN conjunct2, THEN conjunct2]
          run8 ok absent8 cwd6 nothing6
    by blast

  have copied: "extractTextFromDocument ?h ?s3 ''/in/r.png'' ''/out/r.txt'' ''surya_ocr'' [] [] False
     = (True,
        \<lparr>world = w_stray_text
           \<lparr>sim_files := [(''/in/r.png'', ''image''), (''/out/r.txt'', ''TOTAL 12.50'')],
            sim_script := [tool_ok ''NEW'' []]\<rparr>,
         errors = [[''Text file was not created at expected location:'', ''/out/r.txt'']]\<rparr>)"
    by code_simp
  show ?thesis
    using copied moved removed sealed unread staged stray contract none1 none2 none3 by simp
qed

text \<open>
  Claim C2 as stated fails in the receipt workflow: the stage finds the stray text and the
  receipt is processed, and afterwards the declared text file still does not exist and the
  stray file is still where the tool wrote it.
\<close>

theorem receipt_fallback_leaves_artifact_in_place:
  "fst (run_receipt_extraction (sim_host [] example_parses) (sim_start w_stray_text)
          ''/in/r.png'' False ''/out/h1'' ''/out'' ''/out/h1/r.extracted.txt'')
     = Some ''/work/abc/text.txt''
   \<and> truthy (fst (processReceipt (sim_host [] example_parses) (sim_start w_stray_text)
                    ''/in/r.png'' ''/out/r.receipt.json'' False))
   \<and> \<not> fs_exists (sim_host [] example_parses)
          (world (snd (processReceipt (sim_host [] example_parses) (sim_start w_stray_text)
                         ''/in/r.png'' ''/out/r.receipt.json'' False)))
          ''/out/h1/r.extracted.txt''
   \<and> fs_exists (sim_host [] example_parses)
        (world (snd (processReceipt (sim_host [] example_parses) (sim_start w_stray_text)
                       ''/in/r.png'' ''/out/r.receipt.json'' False)))
        ''/work/abc/text.txt''"
  by code_simp

section \<open>Properties of the summary files\<close>






lemma type_name_falsy: "determineReceiptType r = Inr ty \<Longrightarrow> \<not> truthy ty \<Longrightarrow> type_name r = None"
  by (simp add: type_name_def)



























section \<open>Properties of the receipt pipeline\<close>

text \<open>
  The cached text is reused whenever it exists: \<^verbatim>\<open>processReceipt\<close> has no overwrite
  parameter, and with the text in place it goes straight to reading it. An existing output
  that parses to a truthy value is then returned as the result, and neither tool is run.
\<close>

lemma cached_text_skips_extraction:
  "receipt_staging h s doc out = ((hashDir, tempDir, tmp), s1) \<Longrightarrow>
   fs_exists h (world s1) tmp \<Longrightarrow>
   processReceipt h s doc out vb = read_text_and_structure h s1 doc out tmp"
  by (simp add: processReceipt_def)

lemma readExistingReceiptData_truthy:
  "truthy (fst (readExistingReceiptData h s out)) \<Longrightarrow> snd (readExistingReceiptData h s out) = s"
  by (auto simp: readExistingReceiptData_def truthy_def split: sum.splits option.splits)

lemma existing_output_is_returned:
  "fs_read h (world s) tmp = Inr content \<Longrightarrow> \<not> is_blank content \<Longrightarrow>
   fs_exists h (world s) out \<Longrightarrow> truthy (fst (readExistingReceiptData h s out)) \<Longrightarrow>
   read_text_and_structure h s doc out tmp = (fst (readExistingReceiptData h s out), s)"
proof -
  assume rd: "fs_read h (world s) tmp = Inr content" and nb: "\<not> is_blank content"
    and ex: "fs_exists h (world s) out" and tr: "truthy (fst (readExistingReceiptData h s out))"
  obtain d s1 where r: "readExistingReceiptData h s out = (d, s1)"
    by (cases "readExistingReceiptData h s out")
  then have "truthy d" and "s1 = s"
    using tr readExistingReceiptData_truthy [of h s out] by simp_all
  then show ?thesis using rd nb ex r by (simp add: read_text_and_structure_def)
qed

text \<open>
  Claim C1. With the overwrite flag set, a file whose final output exists should be
  processed again and its output regenerated. \<^verbatim>\<open>main\<close> does pass such a file to
  \<^verbatim>\<open>processReceipt\<close>, and the cached text is reused as the claim says; but
  \<^verbatim>\<open>processReceipt\<close> then finds the existing output, returns its content and writes
  nothing. The theorem runs the workflow with \<^verbatim>\<open>overwrite=true\<close> on a receipt whose
  output holds \<^verbatim>\<open>OLD\<close>: the file is counted as a success, the only change of the
  world is that the two availability probes have run, so the output still holds
  \<^verbatim>\<open>OLD\<close> and the structuring tool was never called.
\<close>

theorem overwrite_leaves_existing_output:
  "fst (main_receipt (sim_host config_overwrite example_parses) render_fixed
          (sim_start w_overwrite))
     = Inr (True, Some \<lparr>successCount = 1, failureCount = 0, skippedCount = 0,
                         allReceipts = []\<rparr>)
   \<and> getVar (sim_host config_overwrite example_parses) ''overwrite'' = ''true''
   \<and> fs_read (sim_host config_overwrite example_parses) w_overwrite ''/out/r.receipt.json''
       = Inr ''OLD''
   \<and> world (snd (main_receipt (sim_host config_overwrite example_parses) render_fixed
                    (sim_start w_overwrite)))
       = w_overwrite\<lparr>sim_script := [tool_ok ''NEW'' []]\<rparr>"
  by code_simp


section \<open>Properties of the resume layer\<close>

lemma receipt_loop_skip_step:
  "\<not> ow \<Longrightarrow>
   fs_exists h (world s) (determineReceiptOutputPath h (world s) f (fs_basename h f) op ib) \<Longrightarrow>
   receipt_loop h op ib ow vb (f # files) counts s
     = receipt_loop h op ib ow vb files
         (if truthy (fst (readExistingReceiptData h s
                (determineReceiptOutputPath h (world s) f (fs_basename h f) op ib)))
          then counts\<lparr>allReceipts := allReceipts counts
                   @ [fst (readExistingReceiptData h s
                        (determineReceiptOutputPath h (world s) f (fs_basename h f) op ib))],
                 skippedCount := skippedCount counts + 1\<rparr>
          else counts)
         (snd (readExistingReceiptData h s
                (determineReceiptOutputPath h (world s) f (fs_basename h f) op ib)))"
  by (simp add: Let_def split: prod.splits)

lemma receipt_loop_process_step:
  "ow \<or> \<not> fs_exists h (world s)
            (determineReceiptOutputPath h (world s) f (fs_basename h f) op ib) \<Longrightarrow>
   receipt_loop h op ib ow vb (f # files) counts s
     = receipt_loop h op ib ow vb files
         (if truthy (fst (processReceipt h s f
                (determineReceiptOutputPath h (world s) f (fs_basename h f) op ib) vb))
          then counts\<lparr>successCount := successCount counts + 1,
                 allReceipts := (if ib then allReceipts counts
                   @ [fst (processReceipt h s f
                        (determineReceiptOutputPath h (world s) f (fs_basename h f) op ib) vb)]
                   else allReceipts counts)\<rparr>
          else counts\<lparr>failureCount := failureCount counts + 1\<rparr>)
         (snd (processReceipt h s f
                (determineReceiptOutputPath h (world s) f (fs_basename h f) op ib) vb))"
  by (auto simp: Let_def split: prod.splits)

lemma receipt_loop_appends:
  "\<exists>more. allReceipts (fst (receipt_loop h op ib ow vb files counts s))
            = allReceipts counts @ more"
proof (induction files arbitrary: counts s)
  case Nil
  show ?case by simp
next
  case (Cons f files)
  let ?out = "determineReceiptOutputPath h (world s) f (fs_basename h f) op ib"
  show ?case
  proof (cases "\<not> ow \<and> fs_exists h (world s) ?out")
    case True
    let ?d = "fst (readExistingReceiptData h s ?out)"
    let ?c = "if truthy ?d then counts\<lparr>allReceipts := allReceipts counts @ [?d],
                         skippedCount := skippedCount counts + 1\<rparr> else counts"
    have step: "receipt_loop h op ib ow vb (f # files) counts s
                  = receipt_loop h op ib ow vb files ?c (snd (readExistingReceiptData h s ?out))"
      using True receipt_loop_skip_step by blast
    obtain more where "allReceipts (fst (receipt_loop h op ib ow vb files ?c
                           (snd (readExistingReceiptData h s ?out))))
                         = allReceipts ?c @ more"
      using Cons.IH by blast
    then show ?thesis unfolding step by (cases "truthy ?d") auto
  next
    case False
    let ?d = "fst (processReceipt h s f ?out vb)"
    let ?c = "if truthy ?d then
                  counts\<lparr>successCount := successCount counts + 1,
                         allReceipts := (if ib then allReceipts counts @ [?d]
                                         else allReceipts counts)\<rparr>
                else counts\<lparr>failureCount := failureCount counts + 1\<rparr>"
    have step: "receipt_loop h op ib ow vb (f # files) counts s
                  = receipt_loop h op ib ow vb files ?c (snd (processReceipt h s f ?out vb))"
      using False receipt_loop_process_step [of ow h s f op ib vb files counts] by blast
    obtain more where "allReceipts (fst (receipt_loop h op ib ow vb files ?c
                           (snd (processReceipt h s f ?out vb))))
                         = allReceipts ?c @ more"
      using Cons.IH by blast
    then show ?thesis unfolding step by (cases "truthy ?d"; cases ib) auto
  qed
qed

text \<open>
  What the skip branch does. A file is skipped because overwrite is off and its output
  exists. The output is read and parsed again. When that gives a truthy payload, the payload
  is appended to the aggregation collection, where it stays until the end of the batch, and
  the skipped tally grows by one. When it does not, the batch goes on with the remaining
  files and with every tally as it was. A failed read or a failed parse is reported by one
  line on the error console and changes nothing in the world.
\<close>

lemma skipped_file_feeds_the_summary:
  assumes "\<not> overwrite"
    and "out = determineReceiptOutputPath h (world s) f (fs_basename h f) outputPath isBatch"
    and "fs_exists h (world s) out"
  shows
    "(truthy (fst (readExistingReceiptData h s out)) \<longrightarrow>
        receipt_loop h outputPath isBatch overwrite vb (f # rest) counts s
          = receipt_loop h outputPath isBatch overwrite vb rest
              (counts\<lparr>allReceipts := allReceipts counts @ [fst (readExistingReceiptData h s out)],
                     skippedCount := skippedCount counts + 1\<rparr>) s
        \<and> fst (readExistingReceiptData h s out)
            \<in> set (allReceipts (fst (receipt_loop h outputPath isBatch overwrite vb (f # rest)
                                        counts s))))
     \<and> (\<not> truthy (fst (readExistingReceiptData h s out)) \<longrightarrow>
        receipt_loop h outputPath isBatch overwrite vb (f # rest) counts s
          = receipt_loop h outputPath isBatch overwrite vb rest counts
              (snd (readExistingReceiptData h s out)))
     \<and> ((\<exists>e. fs_read h (world s) out = Inl e)
          \<or> (\<exists>content. fs_read h (world s) out = Inr content \<and> JSON_parse h content = None)
        \<longrightarrow> \<not> truthy (fst (readExistingReceiptData h s out))
            \<and> world (snd (readExistingReceiptData h s out)) = world s
            \<and> (\<exists>line. errors (snd (readExistingReceiptData h s out)) = errors s @ [line]))"
proof -
  let ?d = "fst (readExistingReceiptData h s out)"
  let ?s = "snd (readExistingReceiptData h s out)"
  have step: "receipt_loop h outputPath isBatch overwrite vb (f # rest) counts s
      = receipt_loop h outputPath isBatch overwrite vb rest
          (if truthy ?d then counts\<lparr>allReceipts := allReceipts counts @ [?d],
                                    skippedCount := skippedCount counts + 1\<rparr> else counts) ?s"
    using assms(1,3) receipt_loop_skip_step [of overwrite h s f outputPath isBatch vb rest counts]
    unfolding assms(2) by blast
  have a: "truthy ?d \<longrightarrow>
        receipt_loop h outputPath isBatch overwrite vb (f # rest) counts s
          = receipt_loop h outputPath isBatch overwrite vb rest
              (counts\<lparr>allReceipts := allReceipts counts @ [?d],
                     skippedCount := skippedCount counts + 1\<rparr>) s"
    using step readExistingReceiptData_truthy [of h s out]
    by (simp del: receipt_loop.simps)
  have b: "truthy ?d \<longrightarrow>
        ?d \<in> set (allReceipts (fst (receipt_loop h outputPath isBatch overwrite vb (f # rest)
                                        counts s)))"
  proof
    assume t: "truthy ?d"
    obtain more where
      "allReceipts (fst (receipt_loop h outputPath isBatch overwrite vb rest
              (counts\<lparr>allReceipts := allReceipts counts @ [?d],
                     skippedCount := skippedCount counts + 1\<rparr>) s))
         = allReceipts (counts\<lparr>allReceipts := allReceipts counts @ [?d],
                     skippedCount := skippedCount counts + 1\<rparr>) @ more"
      using receipt_loop_appends by blast
    then show "?d \<in> set (allReceipts (fst (receipt_loop h outputPath isBatch overwrite vb
                                              (f # rest) counts s)))"
      using a t by (simp del: receipt_loop.simps)
  qed
  have c: "\<not> truthy ?d \<longrightarrow>
        receipt_loop h outputPath isBatch overwrite vb (f # rest) counts s
          = receipt_loop h outputPath isBatch overwrite vb rest counts ?s"
    using step by (simp del: receipt_loop.simps)
  have d: "(\<exists>e. fs_read h (world s) out = Inl e)
          \<or> (\<exists>content. fs_read h (world s) out = Inr content \<and> JSON_parse h content = None)
        \<longrightarrow> \<not> truthy ?d \<and> world ?s = world s \<and> (\<exists>line. errors ?s = errors s @ [line])"
    by (auto simp: readExistingReceiptData_def truthy_def console_error_def)
  show ?thesis using a b c d by blast
qed

lemma skipped_file_feeds_the_summary_example:
  "(getVar (sim_host config_batch example_parses) ''overwrite'' = ''true'') = False
   \<and> determineReceiptOutputPath (sim_host config_batch example_parses) (w_resume ''OLD'')
        ''/in/a.png'' ''a'' ''/out'' True = ''/out/a.receipt.json''
   \<and> fs_exists (sim_host config_batch example_parses) (w_resume ''OLD'') ''/out/a.receipt.json''
   \<and> truthy (fst (readExistingReceiptData (sim_host config_batch example_parses)
                    (sim_start (w_resume ''OLD'')) ''/out/a.receipt.json''))
   \<and> JObj [(''type-code'', JStr ''invoice'')]
       \<in> set (allReceipts (fst (receipt_loop (sim_host config_batch example_parses) ''/out''
                 True False False [''/in/a.png'']
                 \<lparr>successCount = 0, failureCount = 0, skippedCount = 0, allReceipts = []\<rparr>
                 (sim_start (w_resume ''OLD'')))))
   \<and> fst (receipt_loop (sim_host config_batch example_parses) ''/out'' True False False
            [''/in/a.png'']
            \<lparr>successCount = 0, failureCount = 0, skippedCount = 0, allReceipts = []\<rparr>
            (sim_start (w_resume ''OLD'')))
       = \<lparr>successCount = 0, failureCount = 0, skippedCount = 1,
          allReceipts = [JObj [(''type-code'', JStr ''invoice'')]]\<rparr>
   \<and> JSON_parse (sim_host config_batch example_parses) ''garbage'' = None
   \<and> receipt_loop (sim_host config_batch example_parses) ''/out'' True False False
            [''/in/a.png'']
            \<lparr>successCount = 0, failureCount = 0, skippedCount = 0, allReceipts = []\<rparr>
            (sim_start (w_resume ''garbage''))
       = (\<lparr>successCount = 0, failureCount = 0, skippedCount = 0, allReceipts = []\<rparr>,
          \<lparr>world = w_resume ''garbage'',
           errors = [[''Failed to parse existing receipt data:'', ''SyntaxError'']]\<rparr>)"
proof -
  let ?h = "sim_host config_batch example_parses"
  let ?s = "sim_start (w_resume ''OLD'')"
  let ?zero = "\<lparr>successCount = 0, failureCount = 0, skippedCount = 0, allReceipts = []\<rparr>"
  have w: "world ?s = w_resume ''OLD''"
    by (simp add: sim_start_def)
  have ow: "(getVar ?h ''overwrite'' = ''true'') = False"
    by code_simp
  have out: "determineReceiptOutputPath ?h (w_resume ''OLD'') ''/in/a.png'' ''a'' ''/out'' True
               = ''/out/a.receipt.json''"
    by code_simp
  have base: "fs_basename ?h ''/in/a.png'' = ''a''"
    by code_simp
  have ex: "fs_exists ?h (w_resume ''OLD'') ''/out/a.receipt.json''"
    by code_simp
  have d: "fst (readExistingReceiptData ?h ?s ''/out/a.receipt.json'')
             = JObj [(''type-code'', JStr ''invoice'')]"
    by code_simp
  have tr: "truthy (fst (readExistingReceiptData ?h ?s ''/out/a.receipt.json''))"
    unfolding d by code_simp
  have out': "''/out/a.receipt.json''
               = determineReceiptOutputPath ?h (world ?s) ''/in/a.png''
                   (fs_basename ?h ''/in/a.png'') ''/out'' True"
    by code_simp
  have ex': "fs_exists ?h (world ?s) ''/out/a.receipt.json''"
    by code_simp
  have no: "\<not> False"
    by simp
  have "fst (readExistingReceiptData ?h ?s ''/out/a.receipt.json'')
          \<in> set (allReceipts (fst (receipt_loop ?h ''/out'' True False False
                                      (''/in/a.png'' # []) ?zero ?s)))"
    using skipped_file_feeds_the_summary [OF no out' ex', of False "[]" ?zero] tr
    by blast
  then have m: "JObj [(''type-code'', JStr ''invoice'')]
       \<in> set (allReceipts (fst (receipt_loop ?h ''/out'' True False False [''/in/a.png''] ?zero ?s)))"
    unfolding d .
  have r: "fst (receipt_loop ?h ''/out'' True False False [''/in/a.png''] ?zero ?s)
       = \<lparr>successCount = 0, failureCount = 0, skippedCount = 1,
          allReceipts = [JObj [(''type-code'', JStr ''invoice'')]]\<rparr>"
    by code_simp
  have p: "JSON_parse ?h ''garbage'' = None"
    by code_simp
  have g: "receipt_loop ?h ''/out'' True False False [''/in/a.png''] ?zero
            (sim_start (w_resume ''garbage''))
       = (?zero, \<lparr>world = w_resume ''garbage'',
           errors = [[''Failed to parse existing receipt data:'', ''SyntaxError'']]\<rparr>)"
    by code_simp
  show ?thesis using ow out ex tr m r p g
    by (simp del: receipt_loop.simps)
qed

text \<open>
  Claim C3. A file that is skipped because its output exists should have that output read
  again for the summary and, when the output cannot be parsed, should still be counted,
  apart from the successes and the failures. The script reports such a file as skipped and
  keeps a tally named \<^verbatim>\<open>Skipped (existing)\<close>, but the increment of that tally sits
  inside the test of the parsed data. The theorem runs two batches with overwrite off. In
  the first, the only file has an output that does not parse: the failure is reported, no
  tool is run, and the run ends with the three tallies at zero. In the second, a file with
  such an output is followed by one whose output parses: the batch goes on, the second file
  is counted as skipped and feeds the summary, and the first is in no tally.
\<close>

theorem unreadable_skip_is_in_no_tally:
  "fst (getDocumentFiles_receipt (sim_host config_batch example_parses)
          (sim_start (w_resume ''garbage'')) ''/in'' documentExtensions_receipt)
     = [''/in/a.png'']
   \<and> getVar (sim_host config_batch example_parses) ''overwrite'' = []
   \<and> fs_exists (sim_host config_batch example_parses) (w_resume ''garbage'')
        ''/out/a.receipt.json''
   \<and> JSON_parse (sim_host config_batch example_parses) ''garbage'' = None
   \<and> main_receipt (sim_host config_batch example_parses) render_fixed
        (sim_start (w_resume ''garbage''))
     = (Inr (True, Some \<lparr>successCount = 0, failureCount = 0, skippedCount = 0,
                          allReceipts = []\<rparr>),
        \<lparr>world = (w_resume ''garbage'')\<lparr>sim_script := []\<rparr>,
         errors = [[''Failed to parse existing receipt data:'', ''SyntaxError'']]\<rparr>)
   \<and> fst (getDocumentFiles_receipt (sim_host config_batch example_parses)
          (sim_start w_resume_pair) ''/in'' documentExtensions_receipt)
     = [''/in/a.png'', ''/in/b.png'']
   \<and> fst (main_receipt (sim_host config_batch example_parses) render_fixed
            (sim_start w_resume_pair))
     = Inr (True, Some \<lparr>successCount = 0, failureCount = 0, skippedCount = 1,
                         allReceipts = [JObj [(''type-code'', JStr ''invoice'')]]\<rparr>)
   \<and> errors (snd (main_receipt (sim_host config_batch example_parses) render_fixed
                     (sim_start w_resume_pair)))
     = [[''Failed to parse existing receipt data:'', ''SyntaxError'']]"
  by code_simp

section \<open>The result of a run\<close>

text \<open>
  Once the per-file loop is reached, the value that \<^verbatim>\<open>main\<close> returns is \<open>True\<close>,
  whatever the tallies are: in the text workflow always, in the receipt workflow whenever
  \<^verbatim>\<open>main\<close> returns at all.
\<close>

lemma main_text_true_after_loop:
  "snd (fst (main_text h s)) = Some counts \<Longrightarrow> fst (fst (main_text h s)) = True"
  by (auto simp: main_text_def main_text_from_output_def Let_def
      split: if_splits prod.splits option.splits validation.splits bool.splits)

lemma main_receipt_true_after_loop:
  "fst (main_receipt h render s) = Inr (b, Some counts) \<Longrightarrow> b = True"
  by (auto simp: main_receipt_def main_receipt_from_output_def Let_def
      split: if_splits prod.splits option.splits validation.splits bool.splits sum.splits)

text \<open>
  Claim C10. Every run that reaches the per-file loop should return \<open>True\<close>. In the
  receipt workflow the summary step follows the loop, and its grouping object is a plain
  \<^verbatim>\<open>{}\<close>: for a receipt whose discriminant is the name of a member of
  \<^verbatim>\<open>Object.prototype\<close>, the test \<^verbatim>\<open>!receiptsByType[receiptType]\<close> finds the
  inherited member, no list is created, and \<^verbatim>\<open>push\<close> is called on something that has
  none. The theorem runs a batch of one file whose existing output has the discriminant
  \<^verbatim>\<open>constructor\<close>: discovery finds the file, the loop is reached, and \<^verbatim>\<open>main\<close>
  ends with a \<^verbatim>\<open>TypeError\<close> instead of returning.
\<close>

theorem summary_grouping_throws:
  "fst (getDocumentFiles_receipt (sim_host config_batch example_parses)
          (sim_start (w_resume ''CONSTRUCTOR'')) ''/in'' documentExtensions_receipt)
     = [''/in/a.png'']
   \<and> JSON_parse (sim_host config_batch example_parses) ''CONSTRUCTOR''
       = Some (JObj [(''type-code'', JStr ''constructor'')])
   \<and> groupReceiptsByType [JObj [(''type-code'', JStr ''constructor'')]] = Inl TypeError
   \<and> fst (main_receipt (sim_host config_batch example_parses) render_fixed
            (sim_start (w_resume ''CONSTRUCTOR''))) = Inl TypeError"
  by code_simp


end
